theory Spec2Isabelle
  imports Main
begin

section \<open>Data model of server.js\<close>

text \<open>
  The registry of user accounts is split over the JSON documents ("bins") listed in
  \<open>ALL_USERS_BIN_IDS\<close>. A user is a JSON object. The model keeps the properties the
  handlers below read or write. It takes \<open>id\<close>, \<open>username\<close> and \<open>authTokens\<close>
  to be present in every stored account, as an integer, a string and an integer (the
  balance is counted in whole tokens, far below the range where a JavaScript number
  stops being exact); the other properties may be absent, which is \<open>None\<close>. An empty
  array is truthy in JavaScript, so \<open>Some []\<close> is a present, empty list. The ids
  that a request carries are numbers as well, and \<open>0\<close> stands for every falsy id.
\<close>

type_synonym binId = string

record friend_request =
  req_from :: int
  fromUsername :: string

record user =
  id_user :: int
  username :: string
  authTokens :: int
  bio :: "string option"
  pfp :: "string option"
  friends :: "int list option"
  friendRequests :: "friend_request list option"
  gamepasses :: "(string \<times> bool) list option"

definition ALL_USERS_BIN_IDS :: "binId list" where
  "ALL_USERS_BIN_IDS = [''68deea1543b1c97be95856b2'', ''68e395a643b1c97be95c2bc3'']"

subsection \<open>What a fetch can give\<close>

text \<open>
  \<open>fetch(url)\<close> either rejects (a network error) or resolves to a response with its
  \<open>ok\<close> flag; \<open>res.json()\<close> then rejects on a body that is not JSON, or gives the
  parsed value. Of the parsed value the handlers only read the property \<open>record\<close>:
  reading it from \<open>null\<close> throws a TypeError, and on any other value it is either
  absent or falsy (\<open>None\<close>) or the record.
\<close>

datatype 'r json = BadJson | JsonNull | Json "'r option"

datatype 'r fetched = Rejected | Response bool "'r json"

datatype js_error = NetworkError | HttpError | SyntaxError | TypeError

text \<open>
  The record of a user bin: its property \<open>users\<close>, absent or falsy (\<open>None\<close>) or
  an array of users, which is what every PUT of the handlers writes
  (\<open>JSON.stringify({ users: ... })\<close>).
\<close>

type_synonym users_record = "user list option"

fun is_rejected :: "'r fetched \<Rightarrow> bool" where
  "is_rejected Rejected = True"
| "is_rejected (Response _ _) = False"

fun is_ok :: "'r fetched \<Rightarrow> bool" where
  "is_ok Rejected = False"
| "is_ok (Response k _) = k"

fun json_of :: "'r fetched \<Rightarrow> 'r json" where
  "json_of Rejected = BadJson"
| "json_of (Response _ j) = j"

fun is_bad_json :: "'r json \<Rightarrow> bool" where
  "is_bad_json BadJson = True"
| "is_bad_json JsonNull = False"
| "is_bad_json (Json _) = False"

subsection \<open>fetchAllUserRecords (lines 112-134)\<close>

text \<open>
  \<open>binRecords\<close> is a JavaScript \<open>Map\<close>: it keeps its keys in insertion order, and
  \<open>set\<close> on a key it already holds replaces the value in place. Its values are
  \<open>{ users, fetchedData }\<close>; no code reads \<open>fetchedData\<close> back, so the model keeps
  the \<open>users\<close> array only.
\<close>

record all_records =
  allUsers :: "user list"
  binRecords :: "(binId \<times> user list) list"

fun map_set :: "('k \<times> 'v) list \<Rightarrow> 'k \<Rightarrow> 'v \<Rightarrow> ('k \<times> 'v) list" where
  "map_set [] k v = [(k, v)]"
| "map_set ((k', v') # m) k v = (if k' = k then (k, v) # m else (k', v') # map_set m k v)"

text \<open>
  The loop of lines 126-132 over the bins and their parsed bodies, with the two
  accumulators \<open>allUsers\<close> and \<open>binRecords\<close>.
\<close>

fun binUsers_of :: "users_record option \<Rightarrow> user list" where
  "binUsers_of None = []"
| "binUsers_of (Some None) = []"
| "binUsers_of (Some (Some us)) = us"

fun merge_bins :: "(binId \<times> users_record json) list \<Rightarrow> all_records \<Rightarrow> js_error + all_records" where
  "merge_bins [] acc = Inr acc"
| "merge_bins ((b, BadJson) # rest) acc = Inl SyntaxError"
| "merge_bins ((b, JsonNull) # rest) acc = Inl TypeError"
| "merge_bins ((b, Json r) # rest) acc =
     merge_bins rest
       \<lparr>allUsers = allUsers acc @ binUsers_of r,
        binRecords = map_set (binRecords acc) b (binUsers_of r)\<rparr>"

text \<open>
  The three awaits in their order: all fetches (line 117), the synchronous \<open>map\<close> that
  throws on the first response that is not ok (line 119), all bodies parsed (line 118),
  then the loop.
\<close>

definition fetchAllUserRecords :: "(binId \<Rightarrow> users_record fetched) \<Rightarrow> js_error + all_records" where
  "fetchAllUserRecords get =
     (let responses = map get ALL_USERS_BIN_IDS in
      if list_ex is_rejected responses then Inl NetworkError
      else if list_ex (\<lambda>r. \<not> is_ok r) responses then Inl HttpError
      else if list_ex (\<lambda>r. is_bad_json (json_of r)) responses then Inl SyntaxError
      else merge_bins (zip ALL_USERS_BIN_IDS (map json_of responses))
             \<lparr>allUsers = [], binRecords = []\<rparr>)"

subsection \<open>findUserAndBin (lines 142-155)\<close>

text \<open>
  \<open>Array.prototype.findIndex\<close>: the first index whose element satisfies the predicate,
  \<open>None\<close> for \<open>-1\<close>.
\<close>

fun findIndex :: "('a \<Rightarrow> bool) \<Rightarrow> 'a list \<Rightarrow> nat option" where
  "findIndex P [] = None"
| "findIndex P (x # xs) = (if P x then Some 0 else map_option Suc (findIndex P xs))"

text \<open>
  The object literal of lines 147-151 has the three properties \<open>binId\<close>, \<open>users\<close>
  and \<open>userIndex\<close>. \<open>users\<close> is the very array held by \<open>binRecords\<close>, not a copy.
\<close>

record located =
  binId :: binId
  users :: "user list"
  userIndex :: nat

fun find_in_entries :: "(binId \<times> user list) list \<Rightarrow> int \<Rightarrow> located option" where
  "find_in_entries [] userId = None"
| "find_in_entries ((b, us) # rest) userId =
     (case findIndex (\<lambda>u. id_user u = userId) us of
        Some i \<Rightarrow> Some \<lparr>binId = b, users = us, userIndex = i\<rparr>
      | None \<Rightarrow> find_in_entries rest userId)"

definition findUserAndBin :: "all_records \<Rightarrow> int \<Rightarrow> located option" where
  "findUserAndBin allRecords userId = find_in_entries (binRecords allRecords) userId"

subsection \<open>The arrays of a view as a store\<close>

text \<open>
  The handlers mutate, in place, the user objects of the arrays that \<open>binRecords\<close>
  holds, and two lookups in the same bin give the same array. So the arrays are a
  store keyed by the bin id: \<open>arr h b\<close> is the array of bin \<open>b\<close> as it is now, and
  \<open>modify h b i f\<close> is the assignment to properties of \<open>users[i]\<close> of that array.
  The ids in \<open>ALL_USERS_BIN_IDS\<close> differ, so every bin has one array.
\<close>

definition arr :: "(binId \<times> user list) list \<Rightarrow> binId \<Rightarrow> user list" where
  "arr h b = (case map_of h b of Some us \<Rightarrow> us | None \<Rightarrow> [])"

definition modify :: "(binId \<times> user list) list \<Rightarrow> binId \<Rightarrow> nat \<Rightarrow> (user \<Rightarrow> user) \<Rightarrow> (binId \<times> user list) list" where
  "modify h b i f = map (\<lambda>(k, us). if k = b then (k, us[i := f (us ! i)]) else (k, us)) h"

subsection \<open>Responses and writes\<close>

record group =
  id_group :: int
  name_group :: string
  description :: string
  iconUrl :: string
  ownerId_group :: int
  members :: "int list"
  createdAt :: string

record public_user =
  id_public :: int
  username_public :: string
  bio_public :: "string option"
  pfp_public :: "string option"
  friends_public :: nat

datatype payload = NoPayload | NewAuthTokens int | NewGroup group | PublicUser public_user

record response =
  status :: nat
  success :: bool
  message :: string
  payload :: payload

definition reply :: "nat \<Rightarrow> bool \<Rightarrow> string \<Rightarrow> response" where
  "reply st ok msg = \<lparr>status = st, success = ok, message = msg, payload = NoPayload\<rparr>"

text \<open>The response of most \<open>catch\<close> blocks.\<close>

definition internal_error :: response where
  "internal_error = reply 500 False ''An internal server error occurred.''"

record ownership =
  userId_ownership :: int
  gamepasses_ownership :: "string list"

record board_entry =
  id_entry :: int
  username_entry :: string
  amount :: int

text \<open>
  A PUT names the bin it overwrites and carries the whole document. Its fetch rejects
  or resolves to a response with its \<open>ok\<close> flag. A handler is a function of what its
  reads give and of the outcome of its \<open>k\<close>-th PUT; it returns its response and the
  PUTs it has issued, in order.
\<close>

datatype put_body =
    UsersBody "user list"
  | GroupsBody "group list"
  | OwnershipBody "ownership list"
  | DonatedBody "board_entry list"
  | RaisedBody "board_entry list"

type_synonym put = "string \<times> put_body"

datatype put_outcome = PutRejected | PutResponse bool

fun put_rejected :: "put_outcome \<Rightarrow> bool" where
  "put_rejected PutRejected = True"
| "put_rejected (PutResponse _) = False"

fun put_ok :: "put_outcome \<Rightarrow> bool" where
  "put_ok PutRejected = False"
| "put_ok (PutResponse k) = k"

text \<open>\<open>await Promise.all(puts)\<close> throws when one of the \<open>n\<close> fetches rejects.\<close>

definition all_rejects :: "(nat \<Rightarrow> put_outcome) \<Rightarrow> nat \<Rightarrow> bool" where
  "all_rejects put_result n = list_ex (\<lambda>k. put_rejected (put_result k)) [0..<n]"

subsection \<open>POST /api/creator/pay-fee (lines 733-759)\<close>

definition pay_fee :: "(binId \<Rightarrow> users_record fetched) \<Rightarrow> (nat \<Rightarrow> put_outcome) \<Rightarrow> int \<Rightarrow> response \<times> put list" where
  "pay_fee get put_result userId =
     (let fee = 1000 in
      case fetchAllUserRecords get of
        Inl e \<Rightarrow> (internal_error, [])
      | Inr userRecords \<Rightarrow>
          (case findUserAndBin userRecords userId of
             None \<Rightarrow> (reply 404 False ''User not found.'', [])
           | Some userBinData \<Rightarrow>
               (let h = binRecords userRecords;
                    b = binId userBinData;
                    userIndex = userIndex userBinData
                in if authTokens (arr h b ! userIndex) < fee
                   then (reply 400 False ''Not enough AuthTokens.'', [])
                   else
                     (let h1 = modify h b userIndex (\<lambda>u. u\<lparr>authTokens := authTokens u - fee\<rparr>);
                          puts = [(b, UsersBody (arr h1 b))]
                      in if all_rejects put_result 1 then (internal_error, puts)
                         else (\<lparr>status = 200, success = True, message = ''Payment successful!'',
                                payload = NewAuthTokens (authTokens (arr h1 b ! userIndex))\<rparr>, puts)))))"

subsection \<open>POST /api/create-group (lines 158-234)\<close>

text \<open>
  The request's fields: a number that is falsy when \<open>0\<close> (or missing), strings that
  are falsy when empty (or missing). \<open>now\<close> is \<open>new Date().toISOString()\<close>.
  \<open>Math.max\<close> of the ids of a list that is not empty:
\<close>

fun max_id :: "int list \<Rightarrow> int" where
  "max_id [] = 0"
| "max_id [x] = x"
| "max_id (x # y # ys) = max x (max_id (y # ys))"

type_synonym groups_record = "group list option"

fun groups_of :: "groups_record option \<Rightarrow> group list" where
  "groups_of None = []"
| "groups_of (Some None) = []"
| "groups_of (Some (Some gs)) = gs"

definition create_group ::
  "(binId \<Rightarrow> users_record fetched) \<Rightarrow> groups_record fetched \<Rightarrow> (nat \<Rightarrow> put_outcome) \<Rightarrow> string \<Rightarrow>
   int \<Rightarrow> string \<Rightarrow> string \<Rightarrow> string \<Rightarrow> response \<times> put list" where
  "create_group get groupsRes put_result now userId groupName groupDescription groupIconUrl =
     (if userId = 0 \<or> groupName = [] \<or> groupDescription = []
      then (reply 400 False ''Missing required fields.'', [])
      else
        case fetchAllUserRecords get of
          Inl e \<Rightarrow> (internal_error, [])
        | Inr userRecords \<Rightarrow>
            (case groupsRes of
               Rejected \<Rightarrow> (internal_error, [])
             | Response False _ \<Rightarrow> (internal_error, [])
             | Response True BadJson \<Rightarrow> (internal_error, [])
             | Response True JsonNull \<Rightarrow> (internal_error, [])
             | Response True (Json r) \<Rightarrow>
                 (let allGroups = groups_of r in
                  case findUserAndBin userRecords userId of
                    None \<Rightarrow> (reply 404 False ''User not found.'', [])
                  | Some userBinData \<Rightarrow>
                      (let h = binRecords userRecords;
                           b = binId userBinData;
                           userIndex = userIndex userBinData
                       in if authTokens (arr h b ! userIndex) < 5000
                          then (reply 403 False ''Insufficient AuthTokens.'', [])
                          else
                            (let h1 = modify h b userIndex (\<lambda>u. u\<lparr>authTokens := authTokens u - 5000\<rparr>);
                                 newGroupId = (if length allGroups > 0 then max_id (map id_group allGroups) + 1 else 1);
                                 newGroup = \<lparr>id_group = newGroupId, name_group = groupName,
                                   description = groupDescription, iconUrl = groupIconUrl,
                                   ownerId_group = userId, members = [userId], createdAt = now\<rparr>;
                                 allGroups1 = allGroups @ [newGroup];
                                 puts = [(b, UsersBody (arr h1 b)),
                                         (''68e18ff743b1c97be95a7ce7'', GroupsBody allGroups1)]
                             in if all_rejects put_result 2 then (internal_error, puts)
                                else if \<not> put_ok (put_result 0) \<or> \<not> put_ok (put_result 1)
                                then (internal_error, puts)
                                else (\<lparr>status = 200, success = True,
                                       message = ''Group created successfully!'',
                                       payload = NewGroup newGroup\<rparr>, puts))))))"

subsection \<open>GET /api/users/search/:id (lines 237-273)\<close>

text \<open>\<open>searchId\<close> is \<open>parseInt\<close> of the path parameter, \<open>None\<close> for \<open>NaN\<close>.\<close>

text \<open>The object \<open>publicUser\<close> of lines 257-263.\<close>

definition publicUser :: "user \<Rightarrow> public_user" where
  "publicUser foundAccount =
     \<lparr>id_public = id_user foundAccount,
      username_public = username foundAccount,
      bio_public = bio foundAccount,
      pfp_public = pfp foundAccount,
      friends_public = (case friends foundAccount of Some fs \<Rightarrow> length fs | None \<Rightarrow> 0)\<rparr>"

definition users_search :: "(binId \<Rightarrow> users_record fetched) \<Rightarrow> int option \<Rightarrow> response" where
  "users_search get searchId =
     (case searchId of
        None \<Rightarrow> reply 400 False ''Invalid ID format.''
      | Some sid \<Rightarrow>
          (case fetchAllUserRecords get of
             Inl e \<Rightarrow> internal_error
           | Inr userRecords \<Rightarrow>
               (let allAccounts = allUsers userRecords in
                if length allAccounts = 0
                then reply 404 False ''No users or bots found in database.''
                else
                  case find (\<lambda>u. id_user u = sid) allAccounts of
                    Some foundAccount \<Rightarrow>
                      \<lparr>status = 200, success = True, message = [],
                       payload = PublicUser (publicUser foundAccount)\<rparr>
                  | None \<Rightarrow> reply 404 False ''User not found.'')))"

subsection \<open>POST /api/friends/accept (lines 494-545)\<close>

definition friends_list :: "user \<Rightarrow> int list" where
  "friends_list u = (case friends u of Some fs \<Rightarrow> fs | None \<Rightarrow> [])"

text \<open>Line 512: the requests not from \<open>requesterId\<close>, of the list or of \<open>[]\<close>.\<close>

definition remove_requests :: "int \<Rightarrow> user \<Rightarrow> user" where
  "remove_requests requesterId u =
     u\<lparr>friendRequests :=
         Some (filter (\<lambda>req. req_from req \<noteq> requesterId)
                 (case friendRequests u of Some rs \<Rightarrow> rs | None \<Rightarrow> []))\<rparr>"

text \<open>Lines 515-516: \<open>if (!u.friends) u.friends = []\<close>.\<close>

definition init_friends :: "user \<Rightarrow> user" where
  "init_friends u = (case friends u of Some fs \<Rightarrow> u | None \<Rightarrow> u\<lparr>friends := Some []\<rparr>)"

text \<open>Lines 518-523: \<open>if (!u.friends.includes(x)) u.friends.push(x)\<close>, on a list that exists.\<close>

definition push_friend :: "int \<Rightarrow> user \<Rightarrow> user" where
  "push_friend x u =
     (if x \<in> set (friends_list u) then u else u\<lparr>friends := Some (friends_list u @ [x])\<rparr>)"

definition friends_accept ::
  "(binId \<Rightarrow> users_record fetched) \<Rightarrow> (nat \<Rightarrow> put_outcome) \<Rightarrow> int \<Rightarrow> int \<Rightarrow> response \<times> put list" where
  "friends_accept get put_result accepterId requesterId =
     (if accepterId = 0 \<or> requesterId = 0 then (reply 400 False ''Missing IDs.'', [])
      else
        case fetchAllUserRecords get of
          Inl e \<Rightarrow> (internal_error, [])
        | Inr userRecords \<Rightarrow>
            (case findUserAndBin userRecords accepterId of
               None \<Rightarrow> (reply 404 False ''User not found.'', [])
             | Some accepterBinData \<Rightarrow>
                 (case findUserAndBin userRecords requesterId of
                    None \<Rightarrow> (reply 404 False ''User not found.'', [])
                  | Some requesterBinData \<Rightarrow>
                      (let h = binRecords userRecords;
                           accepterBinId = binId accepterBinData;
                           accepterIndex = userIndex accepterBinData;
                           requesterBinId = binId requesterBinData;
                           requesterIndex = userIndex requesterBinData;
                           h1 = modify h accepterBinId accepterIndex (remove_requests requesterId);
                           h2 = modify h1 accepterBinId accepterIndex init_friends;
                           h3 = modify h2 requesterBinId requesterIndex init_friends;
                           h4 = modify h3 accepterBinId accepterIndex (push_friend requesterId);
                           h5 = modify h4 requesterBinId requesterIndex (push_friend accepterId);
                           puts = (accepterBinId, UsersBody (arr h5 accepterBinId)) #
                                  (if accepterBinId \<noteq> requesterBinId
                                   then [(requesterBinId, UsersBody (arr h5 requesterBinId))] else [])
                       in if all_rejects put_result (length puts) then (internal_error, puts)
                          else (reply 200 True ''Friend request accepted.'', puts)))))"

subsection \<open>The partition backend\<close>

text \<open>
  Modelled from the spec: the partition backend, a remote service that is not code of
  this repository. Sections 3 and 6 of the specification give each partition an
  account list and an opaque revision marker, a read of the whole document and a PUT
  that overwrites the whole document. The model takes a write to be applied when the
  backend answers it with an ok response, and each applied write to change the marker.
\<close>

record partition =
  content :: "users_record option"
  revision :: nat

type_synonym store = "binId \<Rightarrow> partition"

definition backend_get :: "store \<Rightarrow> binId \<Rightarrow> users_record fetched" where
  "backend_get s b = Response True (Json (content (s b)))"

fun backend_put :: "store \<Rightarrow> put \<Rightarrow> put_outcome \<Rightarrow> store" where
  "backend_put s (b, UsersBody us) (PutResponse True) =
     s(b := \<lparr>content = Some (Some us), revision = Suc (revision (s b))\<rparr>)"
| "backend_put s _ _ = s"

text \<open>The PUTs of a handler, the \<open>k\<close>-th with its outcome, applied to a store.\<close>

fun commit_from :: "nat \<Rightarrow> store \<Rightarrow> put list \<Rightarrow> (nat \<Rightarrow> put_outcome) \<Rightarrow> store" where
  "commit_from k s [] put_result = s"
| "commit_from k s (p # ps) put_result = commit_from (Suc k) (backend_put s p (put_result k)) ps put_result"

definition commit :: "store \<Rightarrow> put list \<Rightarrow> (nat \<Rightarrow> put_outcome) \<Rightarrow> store" where
  "commit s puts put_result = commit_from 0 s puts put_result"

section \<open>The purchase handlers\<close>

subsection \<open>What the three handlers share\<close>

text \<open>
  The handlers destructure or read the property \<open>user\<close> of the object that
  \<open>findUserAndBin\<close> returns (lines 961, 1099, 1100, 1296). The object literal of lines
  147-151 has no such property, so the read gives \<open>undefined\<close>, which is \<open>None\<close> here,
  and reading a property of \<open>undefined\<close> throws a TypeError.
\<close>

definition located_user :: "located \<Rightarrow> user option" where
  "located_user l = None"

text \<open>\<open>String.prototype.toLowerCase\<close>, on ASCII.\<close>

definition toLowerCase_char :: "char \<Rightarrow> char" where
  "toLowerCase_char c =
     (let n = (of_char c :: nat) in if 65 \<le> n \<and> n \<le> 90 then char_of (n + 32) else c)"

definition toLowerCase :: "string \<Rightarrow> string" where
  "toLowerCase s = map toLowerCase_char s"

definition DODGE_GAMEPASS_BIN_ID :: string where
  "DODGE_GAMEPASS_BIN_ID = ''68e28e47d0ea881f40962fed''"

definition AUTHDONATE_GAMEPASS_BIN_ID :: string where
  "AUTHDONATE_GAMEPASS_BIN_ID = ''68e1a74043b1c97be95a8bb1''"

definition FLOORISLAVA_GAMEPASS_BIN_ID :: string where
  "FLOORISLAVA_GAMEPASS_BIN_ID = ''68f1a2b3d4ea881f40a5c3d4''"

definition DONATED_LEADERBOARD_BIN_ID :: string where
  "DONATED_LEADERBOARD_BIN_ID = ''68e1a753ae596e708f064328''"

definition RAISED_LEADERBOARD_BIN_ID :: string where
  "RAISED_LEADERBOARD_BIN_ID = ''68e1a76d43b1c97be95a8bcb''"

text \<open>
  \<open>Math.floor(price * 0.35)\<close>, \<open>Math.floor(price * 0.05)\<close> and
  \<open>Math.floor(gamepass.price * 0.70)\<close> are products in double precision, which differ
  from the exact products for some prices. The handlers take them through the parameter
  \<open>floor_pct\<close>: \<open>floor_pct price p\<close> is the floor of \<open>price\<close> times the double
  nearest to \<open>p / 100\<close>.
\<close>

subsection \<open>POST /api/games/purchase-gamepass (lines 931-1018)\<close>

type_synonym ownership_record = "ownership list option"

fun ownership_of :: "ownership_record option \<Rightarrow> ownership list" where
  "ownership_of None = []"
| "ownership_of (Some None) = []"
| "ownership_of (Some (Some os)) = os"

text \<open>
  The transaction logic, lines 966-975, on the arrays of the view: the buyer is debited,
  then the owner is looked up again and credited with both cuts. It gives the owner's
  lookup and the arrays as they are afterwards.
\<close>

definition gamepass_transaction ::
  "(int \<Rightarrow> nat \<Rightarrow> int) \<Rightarrow> (binId \<times> user list) list \<Rightarrow> located \<Rightarrow> int \<Rightarrow> int \<Rightarrow>
   located option \<times> (binId \<times> user list) list" where
  "gamepass_transaction floor_pct h buyerBinData ownerId price =
     (let h1 = modify h (binId buyerBinData) (userIndex buyerBinData)
                 (\<lambda>u. u\<lparr>authTokens := authTokens u - price\<rparr>);
          ownerCut = floor_pct price 35;
          platformCut = floor_pct price 5;
          ownerRecord = find_in_entries h1 ownerId
      in case ownerRecord of
           None \<Rightarrow> (ownerRecord, h1)
         | Some r \<Rightarrow>
             (ownerRecord,
              modify h1 (binId r) (userIndex r)
                (\<lambda>u. u\<lparr>authTokens := authTokens u + (ownerCut + platformCut)\<rparr>)))"

text \<open>Lines 978-986: the gamepass is recorded for the buyer.\<close>

definition record_ownership :: "ownership list \<Rightarrow> int \<Rightarrow> string \<Rightarrow> ownership list" where
  "record_ownership allOwnership userId gamepassId =
     (case findIndex (\<lambda>e. userId_ownership e = userId) allOwnership of
        Some ownershipIndex \<Rightarrow>
          (let entry = allOwnership ! ownershipIndex in
           if gamepassId \<in> set (gamepasses_ownership entry)
           then allOwnership
           else allOwnership[ownershipIndex :=
                  entry\<lparr>gamepasses_ownership := gamepasses_ownership entry @ [gamepassId]\<rparr>])
      | None \<Rightarrow> allOwnership @ [\<lparr>userId_ownership = userId, gamepasses_ownership = [gamepassId]\<rparr>])"

text \<open>The save phase, lines 988-1012.\<close>

definition gamepass_save ::
  "(binId \<times> user list) list \<Rightarrow> located \<Rightarrow> located option \<Rightarrow> string \<Rightarrow> ownership list \<Rightarrow>
   (nat \<Rightarrow> put_outcome) \<Rightarrow> response \<times> put list" where
  "gamepass_save h buyerBinData ownerRecord gamepassBin allOwnership put_result =
     (let buyerBinId = binId buyerBinData;
          puts = [(buyerBinId, UsersBody (arr h buyerBinId)),
                  (gamepassBin, OwnershipBody allOwnership)] @
                 (case ownerRecord of
                    Some r \<Rightarrow> if binId r \<noteq> buyerBinId then [(binId r, UsersBody (arr h (binId r)))] else []
                  | None \<Rightarrow> [])
      in if all_rejects put_result (length puts) then (internal_error, puts)
         else (\<lparr>status = 200, success = True, message = ''Purchase successful!'',
                payload = NewAuthTokens (authTokens (arr h buyerBinId ! userIndex buyerBinData))\<rparr>,
               puts))"

text \<open>
  The handler. \<open>gamepassRes\<close> is the response of the one gamepass bin the handler
  fetches; its \<open>ok\<close> flag is not looked at.
\<close>

definition purchase_gamepass ::
  "(int \<Rightarrow> nat \<Rightarrow> int) \<Rightarrow> (binId \<Rightarrow> users_record fetched) \<Rightarrow> ownership_record fetched \<Rightarrow>
   (nat \<Rightarrow> put_outcome) \<Rightarrow> int \<Rightarrow> string \<Rightarrow> string \<Rightarrow> int \<Rightarrow> response \<times> put list" where
  "purchase_gamepass floor_pct get gamepassRes put_result userId gameId gamepassId price =
     (if userId = 0 \<or> gameId = [] \<or> gamepassId = [] \<or> price = 0
      then (reply 400 False ''Missing purchase details.'', [])
      else if gameId \<noteq> ''dodge-the-blocks'' \<and> gameId \<noteq> ''floor-is-lava''
      then (reply 404 False ''Game not found for gamepass system.'', [])
      else
        (let gamepassBin = (if gameId = ''dodge-the-blocks'' then DODGE_GAMEPASS_BIN_ID
                            else FLOORISLAVA_GAMEPASS_BIN_ID)
         in case fetchAllUserRecords get of
              Inl e \<Rightarrow> (internal_error, [])
            | Inr userRecords \<Rightarrow>
                (case gamepassRes of
                   Rejected \<Rightarrow> (internal_error, [])
                 | Response _ BadJson \<Rightarrow> (internal_error, [])
                 | Response _ JsonNull \<Rightarrow> (internal_error, [])
                 | Response _ (Json r) \<Rightarrow>
                     (let allOwnership = ownership_of r in
                      case findUserAndBin userRecords userId of
                        None \<Rightarrow> (reply 404 False ''Buyer not found.'', [])
                      | Some buyerBinData \<Rightarrow>
                          (case find (\<lambda>u. toLowerCase (username u) = ''madeonice'') (allUsers userRecords) of
                             None \<Rightarrow> (reply 500 False ''Game owner not found.'', [])
                           | Some ownerBinData \<Rightarrow>
                               (case located_user buyerBinData of
                                  None \<Rightarrow> (internal_error, [])
                                | Some buyer \<Rightarrow>
                                    if authTokens buyer < price
                                    then (reply 400 False ''Insufficient AuthTokens.'', [])
                                    else
                                      (case gamepass_transaction floor_pct (binRecords userRecords)
                                              buyerBinData (id_user ownerBinData) price of
                                         (ownerRecord, h2) \<Rightarrow>
                                           gamepass_save h2 buyerBinData ownerRecord gamepassBin
                                             (record_ownership allOwnership userId gamepassId)
                                             put_result)))))))"

subsection \<open>POST /api/authdonate/purchase (lines 1071-1165)\<close>

record gamepass =
  id_gamepass :: int
  ownerId :: int
  name_gamepass :: string
  price_gamepass :: int

text \<open>
  \<open>(await res.json()).record.gamepasses || []\<close> and its two siblings (lines 1084-1086):
  here a body without a record throws as well.
\<close>

fun record_list :: "'a list option fetched \<Rightarrow> js_error + 'a list" where
  "record_list Rejected = Inl NetworkError"
| "record_list (Response _ BadJson) = Inl SyntaxError"
| "record_list (Response _ JsonNull) = Inl TypeError"
| "record_list (Response _ (Json None)) = Inl TypeError"
| "record_list (Response _ (Json (Some None))) = Inr []"
| "record_list (Response _ (Json (Some (Some xs)))) = Inr xs"

text \<open>The response of this handler's \<open>catch\<close> block.\<close>

definition purchase_error :: response where
  "purchase_error = reply 500 False ''Server error during purchase.''"

text \<open>The transaction logic, lines 1104-1116.\<close>

definition authdonate_transaction ::
  "(int \<Rightarrow> nat \<Rightarrow> int) \<Rightarrow> (binId \<times> user list) list \<Rightarrow> located \<Rightarrow> located \<Rightarrow> located option \<Rightarrow> int \<Rightarrow>
   (binId \<times> user list) list" where
  "authdonate_transaction floor_pct h buyerBinData ownerBinData madeoniceBinData price =
     (let ownerCut = floor_pct price 70;
          platformCut = price - ownerCut;
          ownerBinId = binId ownerBinData;
          ownerIndex = userIndex ownerBinData;
          h1 = modify h (binId buyerBinData) (userIndex buyerBinData)
                 (\<lambda>u. u\<lparr>authTokens := authTokens u - price\<rparr>);
          h2 = modify h1 ownerBinId ownerIndex (\<lambda>u. u\<lparr>authTokens := authTokens u + ownerCut\<rparr>)
      in case madeoniceBinData of
           Some m \<Rightarrow>
             if ownerBinId \<noteq> binId m
             then modify h2 (binId m) (userIndex m) (\<lambda>u. u\<lparr>authTokens := authTokens u + platformCut\<rparr>)
             else modify h2 ownerBinId ownerIndex (\<lambda>u. u\<lparr>authTokens := authTokens u + platformCut\<rparr>)
         | None \<Rightarrow> h2)"

text \<open>The leaderboard logic, lines 1119-1130, for one board.\<close>

definition bump_board :: "board_entry list \<Rightarrow> int \<Rightarrow> string \<Rightarrow> int \<Rightarrow> board_entry list" where
  "bump_board board uid name amt =
     (case findIndex (\<lambda>e. id_entry e = uid) board of
        Some i \<Rightarrow> board[i := (board ! i)\<lparr>amount := amount (board ! i) + amt\<rparr>]
      | None \<Rightarrow> board @ [\<lparr>id_entry = uid, username_entry = name, amount = amt\<rparr>])"

text \<open>
  The save phase, lines 1132-1160. After the writes the handler broadcasts the donation
  to the WebSocket clients, reading \<open>owner.username\<close>.
\<close>

definition authdonate_save ::
  "(binId \<times> user list) list \<Rightarrow> located \<Rightarrow> located \<Rightarrow> located option \<Rightarrow> user option \<Rightarrow>
   board_entry list \<Rightarrow> board_entry list \<Rightarrow> (nat \<Rightarrow> put_outcome) \<Rightarrow> response \<times> put list" where
  "authdonate_save h buyerBinData ownerBinData madeoniceBinData owner donatedBoard raisedBoard put_result =
     (let buyerBinId = binId buyerBinData;
          ownerBinId = binId ownerBinData;
          puts = [(buyerBinId, UsersBody (arr h buyerBinId)),
                  (ownerBinId, UsersBody (arr h ownerBinId)),
                  (DONATED_LEADERBOARD_BIN_ID, DonatedBody donatedBoard),
                  (RAISED_LEADERBOARD_BIN_ID, RaisedBody raisedBoard)] @
                 (case madeoniceBinData of
                    Some m \<Rightarrow>
                      if binId m \<noteq> buyerBinId \<and> binId m \<noteq> ownerBinId
                      then [(binId m, UsersBody (arr h (binId m)))] else []
                  | None \<Rightarrow> [])
      in if all_rejects put_result (length puts) then (purchase_error, puts)
         else case owner of
                None \<Rightarrow> (purchase_error, puts)
              | Some ow \<Rightarrow>
                  (\<lparr>status = 200, success = True, message = ''Purchase successful!'',
                    payload = NewAuthTokens (authTokens (arr h buyerBinId ! userIndex buyerBinData))\<rparr>,
                   puts))"

definition authdonate_purchase ::
  "(int \<Rightarrow> nat \<Rightarrow> int) \<Rightarrow> (binId \<Rightarrow> users_record fetched) \<Rightarrow> gamepass list option fetched \<Rightarrow>
   board_entry list option fetched \<Rightarrow> board_entry list option fetched \<Rightarrow>
   (nat \<Rightarrow> put_outcome) \<Rightarrow> int \<Rightarrow> int \<Rightarrow> response \<times> put list" where
  "authdonate_purchase floor_pct get gpRes donatedRes raisedRes put_result buyerId gamepassId =
     (if buyerId = 0 \<or> gamepassId = 0 then (reply 400 False ''Missing data.'', [])
      else
        case fetchAllUserRecords get of
          Inl e \<Rightarrow> (purchase_error, [])
        | Inr userRecords \<Rightarrow>
            if is_rejected gpRes \<or> is_rejected donatedRes \<or> is_rejected raisedRes
            then (purchase_error, [])
            else
              (case record_list gpRes of
                 Inl e \<Rightarrow> (purchase_error, [])
               | Inr allGamepasses \<Rightarrow>
              (case record_list donatedRes of
                 Inl e \<Rightarrow> (purchase_error, [])
               | Inr donatedBoard \<Rightarrow>
              (case record_list raisedRes of
                 Inl e \<Rightarrow> (purchase_error, [])
               | Inr raisedBoard \<Rightarrow>
              (case find (\<lambda>gp. id_gamepass gp = gamepassId) allGamepasses of
                 None \<Rightarrow> (reply 404 False ''Gamepass not found.'', [])
               | Some gamepass \<Rightarrow>
                   (let buyerBinData = findUserAndBin userRecords buyerId;
                        ownerBinData = findUserAndBin userRecords (ownerId gamepass);
                        madeonice = find (\<lambda>u. toLowerCase (username u) = ''madeonice'') (allUsers userRecords);
                        madeoniceBinData =
                          (case madeonice of
                             Some m \<Rightarrow> findUserAndBin userRecords (id_user m)
                           | None \<Rightarrow> None)
                    in case buyerBinData of
                         None \<Rightarrow> (reply 404 False ''User not found.'', [])
                       | Some b \<Rightarrow>
                      (case ownerBinData of
                         None \<Rightarrow> (reply 404 False ''User not found.'', [])
                       | Some ob \<Rightarrow>
                      (case located_user b of
                         None \<Rightarrow> (purchase_error, [])
                       | Some buyer \<Rightarrow>
                           if authTokens buyer < price_gamepass gamepass
                           then (reply 400 False ''Insufficient AuthTokens.'', [])
                           else
                             (let owner = located_user ob;
                                  h1 = authdonate_transaction floor_pct (binRecords userRecords) b ob
                                         madeoniceBinData (price_gamepass gamepass);
                                  donated1 = bump_board donatedBoard buyerId (username buyer)
                                               (price_gamepass gamepass)
                              in case (findIndex (\<lambda>e. id_entry e = ownerId gamepass) raisedBoard, owner) of
                                   (None, None) \<Rightarrow> (purchase_error, [])
                                 | (_, _) \<Rightarrow>
                                     authdonate_save h1 b ob madeoniceBinData owner donated1
                                       (bump_board raisedBoard (ownerId gamepass)
                                          (case owner of Some ow \<Rightarrow> username ow | None \<Rightarrow> [])
                                          (price_gamepass gamepass))
                                       put_result)))))))))"

subsection \<open>POST /api/floorislava/purchase-score-multiplier (lines 1278-1347)\<close>

text \<open>The property \<open>gamepasses\<close> of a user is an object used as a dictionary of flags.\<close>

definition owns_gamepass :: "user \<Rightarrow> string \<Rightarrow> bool" where
  "owns_gamepass u k = (case gamepasses u of None \<Rightarrow> False | Some gp \<Rightarrow> map_of gp k = Some True)"

definition add_gamepass :: "string \<Rightarrow> user \<Rightarrow> user" where
  "add_gamepass k u =
     u\<lparr>gamepasses := Some (map_set (case gamepasses u of None \<Rightarrow> [] | Some gp \<Rightarrow> gp) k True)\<rparr>"

text \<open>The transaction logic, lines 1312-1333; it gives the two lookups as well.\<close>

definition floorislava_transaction ::
  "(binId \<times> user list) list \<Rightarrow> located \<Rightarrow> int \<Rightarrow> int \<Rightarrow>
   located option \<times> located option \<times> (binId \<times> user list) list" where
  "floorislava_transaction h buyerData creatorId platformOwnerId =
     (let price = 2000;
          creatorCut = 1000;
          platformCut = price - creatorCut;
          h1 = modify h (binId buyerData) (userIndex buyerData)
                 (\<lambda>u. u\<lparr>authTokens := authTokens u - price\<rparr>);
          h2 = modify h1 (binId buyerData) (userIndex buyerData) (add_gamepass ''floorislava_x2_score'');
          creatorBinData = find_in_entries h2 creatorId;
          h3 = (case creatorBinData of
                  Some c \<Rightarrow> modify h2 (binId c) (userIndex c) (\<lambda>u. u\<lparr>authTokens := authTokens u + creatorCut\<rparr>)
                | None \<Rightarrow> h2);
          platformBinData = find_in_entries h3 platformOwnerId;
          h4 = (case platformBinData of
                  Some p \<Rightarrow> modify h3 (binId p) (userIndex p) (\<lambda>u. u\<lparr>authTokens := authTokens u + platformCut\<rparr>)
                | None \<Rightarrow> h3)
      in (creatorBinData, platformBinData, h4))"

text \<open>
  The save phase, lines 1338-1342: up to three PUTs, each awaited before the next.
  The third condition reads \<open>creatorBinData.binId\<close>, which throws when there is no
  creator lookup.
\<close>

definition floorislava_save ::
  "(binId \<times> user list) list \<Rightarrow> located \<Rightarrow> user \<Rightarrow> located option \<Rightarrow> located option \<Rightarrow>
   (nat \<Rightarrow> put_outcome) \<Rightarrow> response \<times> put list" where
  "floorislava_save h buyerData buyer creatorBinData platformBinData put_result =
     (let put1 = [(binId buyerData, UsersBody (arr h (binId buyerData)))] in
      if put_rejected (put_result 0) then (internal_error, put1)
      else
        (let put2 = (case creatorBinData of
                       Some c \<Rightarrow> if binId c \<noteq> binId buyerData then [(binId c, UsersBody (arr h (binId c)))] else []
                     | None \<Rightarrow> [])
         in if put2 \<noteq> [] \<and> put_rejected (put_result 1) then (internal_error, put1 @ put2)
            else
              (case platformBinData of
                 None \<Rightarrow>
                   (\<lparr>status = 200, success = True, message = ''Gamepass purchased successfully!'',
                     payload = NewAuthTokens (authTokens buyer)\<rparr>, put1 @ put2)
               | Some p \<Rightarrow>
                   if binId p = binId buyerData
                   then (\<lparr>status = 200, success = True, message = ''Gamepass purchased successfully!'',
                           payload = NewAuthTokens (authTokens buyer)\<rparr>, put1 @ put2)
                   else
                     (case creatorBinData of
                        None \<Rightarrow> (internal_error, put1 @ put2)
                      | Some c \<Rightarrow>
                          (let put3 = (if binId p \<noteq> binId c then [(binId p, UsersBody (arr h (binId p)))] else [])
                           in if put3 \<noteq> [] \<and> put_rejected (put_result (length (put1 @ put2)))
                              then (internal_error, put1 @ put2 @ put3)
                              else (\<lparr>status = 200, success = True,
                                      message = ''Gamepass purchased successfully!'',
                                      payload = NewAuthTokens (authTokens buyer)\<rparr>,
                                    put1 @ put2 @ put3))))))"

definition purchase_score_multiplier ::
  "(binId \<Rightarrow> users_record fetched) \<Rightarrow> (nat \<Rightarrow> put_outcome) \<Rightarrow> int \<Rightarrow> response \<times> put list" where
  "purchase_score_multiplier get put_result userId =
     (let price = 2000;
          creatorUsername = ''jasquire'';
          platformUsername = ''madeonice''
      in if userId = 0 then (reply 400 False ''User ID is required.'', [])
         else
           case fetchAllUserRecords get of
             Inl e \<Rightarrow> (internal_error, [])
           | Inr userRecords \<Rightarrow>
               (case findUserAndBin userRecords userId of
                  None \<Rightarrow> (reply 404 False ''Buyer not found.'', [])
                | Some buyerData \<Rightarrow>
                    (case located_user buyerData of
                       None \<Rightarrow> (internal_error, [])
                     | Some buyer \<Rightarrow>
                         if authTokens buyer < price
                         then (reply 400 False ''Insufficient AuthTokens.'', [])
                         else if owns_gamepass buyer ''floorislava_x2_score''
                         then (reply 400 False ''You already own this gamepass.'', [])
                         else
                           (case find (\<lambda>u. toLowerCase (username u) = creatorUsername) (allUsers userRecords) of
                              None \<Rightarrow> (reply 500 False ''Game creator or platform owner account not found.'', [])
                            | Some creatorData \<Rightarrow>
                           (case find (\<lambda>u. toLowerCase (username u) = platformUsername) (allUsers userRecords) of
                              None \<Rightarrow> (reply 500 False ''Game creator or platform owner account not found.'', [])
                            | Some platformOwnerData \<Rightarrow>
                                (case floorislava_transaction (binRecords userRecords) buyerData
                                        (id_user creatorData) (id_user platformOwnerData) of
                                   (creatorBinData, platformBinData, h4) \<Rightarrow>
                                     floorislava_save h4 buyerData buyer creatorBinData platformBinData
                                       put_result))))))"

section \<open>Predicates and concrete inputs used by the theorems\<close>

text \<open>A read of one bin fails: the fetch rejects, the response is not ok, or the body
  is not JSON or is \<open>null\<close>.\<close>

definition read_fails :: "'r fetched \<Rightarrow> bool" where
  "read_fails r = (is_rejected r \<or> \<not> is_ok r \<or> json_of r = BadJson \<or> json_of r = JsonNull)"

text \<open>A read of one bin answers: an ok response whose body is a JSON value other than
  \<open>null\<close>. Every bin of the registry answers:\<close>

fun answers :: "'r fetched \<Rightarrow> bool" where
  "answers (Response True (Json r)) = True"
| "answers _ = False"

definition reads_answer :: "(binId \<Rightarrow> users_record fetched) \<Rightarrow> bool" where
  "reads_answer get = list_all (\<lambda>b. answers (get b)) ALL_USERS_BIN_IDS"

fun record_of :: "'r fetched \<Rightarrow> 'r option" where
  "record_of (Response _ (Json r)) = r"
| "record_of _ = None"

definition mk_user :: "int \<Rightarrow> string \<Rightarrow> int \<Rightarrow> user" where
  "mk_user i n t = \<lparr>id_user = i, username = n, authTokens = t, bio = None, pfp = None,
     friends = None, friendRequests = None, gamepasses = None\<rparr>"

text \<open>Both bins answer with a list of users.\<close>

definition two_bins :: "user list \<Rightarrow> user list \<Rightarrow> binId \<Rightarrow> users_record fetched" where
  "two_bins us1 us2 b =
     (if b = ''68deea1543b1c97be95856b2'' then Response True (Json (Some (Some us1)))
      else if b = ''68e395a643b1c97be95c2bc3'' then Response True (Json (Some (Some us2)))
      else Response False BadJson)"

text \<open>The first bin answers with a list of users, the second with what is given.\<close>

definition second_bin :: "user list \<Rightarrow> users_record fetched \<Rightarrow> binId \<Rightarrow> users_record fetched" where
  "second_bin us1 r b =
     (if b = ''68deea1543b1c97be95856b2'' then Response True (Json (Some (Some us1))) else r)"

text \<open>A view in which the id 7 is in both bins.\<close>

definition dup_view :: all_records where
  "dup_view = \<lparr>allUsers = [mk_user 7 ''ann'' 10, mk_user 7 ''bob'' 20],
     binRecords = [(''68deea1543b1c97be95856b2'', [mk_user 7 ''ann'' 10]),
                   (''68e395a643b1c97be95c2bc3'', [mk_user 7 ''bob'' 20])]\<rparr>"

text \<open>A backend whose first partition holds one account, with 5000 tokens; every PUT
  answered ok; and the same backend after another writer has overwritten the first
  partition.\<close>

definition store0 :: store where
  "store0 b = \<lparr>content = (if b = ''68deea1543b1c97be95856b2'' then Some (Some [mk_user 1 ''ann'' 5000]) else None),
               revision = 0\<rparr>"

definition all_ok :: "nat \<Rightarrow> put_outcome" where
  "all_ok k = PutResponse True"

definition store1 :: store where
  "store1 = backend_put store0 (''68deea1543b1c97be95856b2'', UsersBody [mk_user 1 ''ann'' 9000]) (PutResponse True)"

text \<open>The list of a located user's bin with \<open>n\<close> tokens taken from that user.\<close>

definition debited :: "int \<Rightarrow> located \<Rightarrow> user list" where
  "debited n l = (users l)[userIndex l :=
      (users l ! userIndex l)\<lparr>authTokens := authTokens (users l ! userIndex l) - n\<rparr>]"

text \<open>A registry with a buyer in the first partition and the account \<open>MadeOnIce\<close> in
  the second, the two lookups in it, and a gamepass of the latter.\<close>

definition shop_h :: "(binId \<times> user list) list" where
  "shop_h = [(''68deea1543b1c97be95856b2'', [mk_user 1 ''ann'' 1000]),
             (''68e395a643b1c97be95c2bc3'', [mk_user 2 ''MadeOnIce'' 0])]"

definition shop_buyer :: located where
  "shop_buyer = \<lparr>binId = ''68deea1543b1c97be95856b2'', users = [mk_user 1 ''ann'' 1000], userIndex = 0\<rparr>"

definition shop_owner :: located where
  "shop_owner = \<lparr>binId = ''68e395a643b1c97be95c2bc3'', users = [mk_user 2 ''MadeOnIce'' 0], userIndex = 0\<rparr>"

definition shop_get :: "binId \<Rightarrow> users_record fetched" where
  "shop_get = two_bins [mk_user 1 ''ann'' 1000] [mk_user 2 ''MadeOnIce'' 0]"

definition shop_view :: all_records where
  "shop_view = \<lparr>allUsers = [mk_user 1 ''ann'' 1000, mk_user 2 ''MadeOnIce'' 0], binRecords = shop_h\<rparr>"

definition vip_pass :: gamepass where
  "vip_pass = \<lparr>id_gamepass = 5, ownerId = 2, name_gamepass = ''vip'', price_gamepass = 100\<rparr>"

text \<open>A backend with one account in each partition, and PUT outcomes where the first
  write is answered ok and every later one is refused, or the fetch of every later one
  rejects, or every fetch rejects.\<close>

definition store_ab :: store where
  "store_ab b = \<lparr>content =
       (if b = ''68deea1543b1c97be95856b2'' then Some (Some [mk_user 1 ''ann'' 0])
        else if b = ''68e395a643b1c97be95c2bc3'' then Some (Some [mk_user 2 ''bob'' 0])
        else None),
     revision = 0\<rparr>"

definition second_refused :: "nat \<Rightarrow> put_outcome" where
  "second_refused k = (if k = 0 then PutResponse True else PutResponse False)"

definition second_rejected :: "nat \<Rightarrow> put_outcome" where
  "second_rejected k = (if k = 0 then PutResponse True else PutRejected)"

definition all_rejected :: "nat \<Rightarrow> put_outcome" where
  "all_rejected k = PutRejected"

text \<open>An account whose friends list holds the id 2 twice.\<close>

definition ann22 :: user where
  "ann22 = (mk_user 1 ''ann'' 0)\<lparr>friends := Some [2, 2]\<rparr>"

text \<open>A registry whose buyer holds 50 tokens.\<close>

definition poor_get :: "binId \<Rightarrow> users_record fetched" where
  "poor_get = two_bins [mk_user 1 ''ann'' 50] [mk_user 2 ''MadeOnIce'' 0]"

definition poor_view :: all_records where
  "poor_view = \<lparr>allUsers = [mk_user 1 ''ann'' 50, mk_user 2 ''MadeOnIce'' 0],
     binRecords = [(''68deea1543b1c97be95856b2'', [mk_user 1 ''ann'' 50]),
                   (''68e395a643b1c97be95c2bc3'', [mk_user 2 ''MadeOnIce'' 0])]\<rparr>"

definition poor_buyer :: located where
  "poor_buyer = \<lparr>binId = ''68deea1543b1c97be95856b2'', users = [mk_user 1 ''ann'' 50], userIndex = 0\<rparr>"

section \<open>The registry reader\<close>

lemma bins_eq: "ALL_USERS_BIN_IDS = [''68deea1543b1c97be95856b2'', ''68e395a643b1c97be95c2bc3'']"
  by (simp add: ALL_USERS_BIN_IDS_def)

lemma merge_bins_null:
  "(b, JsonNull) \<in> set es \<or> (b, BadJson) \<in> set es \<Longrightarrow> \<exists>e. merge_bins es acc = Inl e"
  by (induction es acc rule: merge_bins.induct) auto

lemma zip_map_same: "zip xs (map f (map g xs)) = map (\<lambda>x. (x, f (g x))) xs"
  by (induction xs) auto

lemma is_bad_json_iff: "is_bad_json j = (j = BadJson)"
  by (cases j) auto

lemma answersD: "answers f \<Longrightarrow> \<exists>r. f = Response True (Json r)"
  by (cases f rule: answers.cases) auto

lemma reads_answerD:
  "reads_answer get \<Longrightarrow> b \<in> set ALL_USERS_BIN_IDS \<Longrightarrow> \<exists>r. get b = Response True (Json r)"
  by (auto simp: reads_answer_def list_all_iff dest: answersD)

lemma fetch_ok:
  assumes "reads_answer get"
  shows "fetchAllUserRecords get =
     Inr \<lparr>allUsers = concat (map (\<lambda>b. binUsers_of (record_of (get b))) ALL_USERS_BIN_IDS),
          binRecords = map (\<lambda>b. (b, binUsers_of (record_of (get b)))) ALL_USERS_BIN_IDS\<rparr>"
proof -
  obtain r1 where r1: "get ''68deea1543b1c97be95856b2'' = Response True (Json r1)"
    using reads_answerD[OF assms, of "''68deea1543b1c97be95856b2''"] by (auto simp: bins_eq)
  obtain r2 where r2: "get ''68e395a643b1c97be95c2bc3'' = Response True (Json r2)"
    using reads_answerD[OF assms, of "''68e395a643b1c97be95c2bc3''"] by (auto simp: bins_eq)
  show ?thesis
    by (simp add: fetchAllUserRecords_def bins_eq r1 r2)
qed

lemma fetch_two_bins:
  "fetchAllUserRecords (two_bins us1 us2) =
     Inr \<lparr>allUsers = us1 @ us2,
          binRecords = [(''68deea1543b1c97be95856b2'', us1), (''68e395a643b1c97be95c2bc3'', us2)]\<rparr>"
  by (simp add: fetchAllUserRecords_def bins_eq two_bins_def)

lemma read_fails_Inl:
  assumes "b \<in> set ALL_USERS_BIN_IDS" and "read_fails (get b)"
  shows "\<exists>e. fetchAllUserRecords get = Inl e"
proof -
  let ?rs = "map get ALL_USERS_BIN_IDS"
  have mem: "get b \<in> set ?rs" using assms(1) by simp
  show ?thesis
  proof (cases "list_ex is_rejected ?rs \<or> list_ex (\<lambda>r. \<not> is_ok r) ?rs
                \<or> list_ex (\<lambda>r. is_bad_json (json_of r)) ?rs")
    case True
    then show ?thesis by (auto simp: fetchAllUserRecords_def Let_def)
  next
    case False
    then have "\<not> is_rejected (get b)" "is_ok (get b)" "json_of (get b) \<noteq> BadJson"
      using mem by (auto simp: list_ex_iff is_bad_json_iff)
    then have "json_of (get b) = JsonNull" using assms(2) by (simp add: read_fails_def)
    moreover have "zip ALL_USERS_BIN_IDS (map json_of ?rs)
        = map (\<lambda>x. (x, json_of (get x))) ALL_USERS_BIN_IDS"
      by (rule zip_map_same)
    ultimately have "(b, JsonNull) \<in> set (zip ALL_USERS_BIN_IDS (map json_of ?rs))"
      using assms(1) by (auto simp: image_iff)
    then obtain e where
      "merge_bins (zip ALL_USERS_BIN_IDS (map json_of ?rs)) \<lparr>allUsers = [], binRecords = []\<rparr> = Inl e"
      using merge_bins_null by blast
    with False show ?thesis by (auto simp: fetchAllUserRecords_def Let_def)
  qed
qed

text \<open>
  C3. If the read of one partition fails (the fetch rejects, the response is not ok, or
  the body is not JSON or is null), \<open>fetchAllUserRecords\<close> fails with an error: it
  returns no merged view at all.
\<close>

theorem fetchAllUserRecords_fails_closed:
  assumes "b \<in> set ALL_USERS_BIN_IDS" and "read_fails (get b)"
  shows "\<exists>e. fetchAllUserRecords get = Inl e"
  using assms by (rule read_fails_Inl)

theorem fetchAllUserRecords_fails_closed_witness:
  "''68e395a643b1c97be95c2bc3'' \<in> set ALL_USERS_BIN_IDS
   \<and> read_fails (second_bin [mk_user 1 ''ann'' 10] Rejected ''68e395a643b1c97be95c2bc3'')
   \<and> (\<exists>e. fetchAllUserRecords (second_bin [mk_user 1 ''ann'' 10] Rejected) = Inl e)"
proof -
  have m: "''68e395a643b1c97be95c2bc3'' \<in> set ALL_USERS_BIN_IDS" by (simp add: bins_eq)
  have f: "read_fails (second_bin [mk_user 1 ''ann'' 10] Rejected ''68e395a643b1c97be95c2bc3'')"
    by (simp add: read_fails_def second_bin_def)
  from m f fetchAllUserRecords_fails_closed[of "''68e395a643b1c97be95c2bc3''"
      "second_bin [mk_user 1 ''ann'' 10] Rejected"]
  show ?thesis by simp
qed

text \<open>
  C7. A partition whose document has no record, no users list or an empty users list,
  delivered in an ok response with a JSON body other than \<open>null\<close>, is read as the empty
  account list: when every partition answers so, the read succeeds, the merged view is
  the concatenation of the per-partition lists in registry order, and that partition's
  list is empty. A partition whose document is absent (a response that is not ok), or
  whose body is empty or not JSON, or is \<open>null\<close>, makes the whole read fail.
\<close>

theorem fetchAllUserRecords_empty_document:
  "(reads_answer get \<longrightarrow>
     (\<exists>v. fetchAllUserRecords get = Inr v \<and>
        allUsers v = concat (map snd (binRecords v)) \<and>
        map fst (binRecords v) = ALL_USERS_BIN_IDS \<and>
        (\<forall>b \<in> set ALL_USERS_BIN_IDS.
           (get b = Response True (Json None) \<or> get b = Response True (Json (Some None))
             \<or> get b = Response True (Json (Some (Some []))))
            \<longrightarrow> map_of (binRecords v) b = Some []))) \<and>
   (\<forall>b \<in> set ALL_USERS_BIN_IDS.
      ((\<exists>j. get b = Response False j) \<or> get b = Response True BadJson
        \<or> get b = Response True JsonNull)
      \<longrightarrow> (\<exists>e. fetchAllUserRecords get = Inl e))"
proof (intro conjI impI ballI)
  assume "reads_answer get"
  from fetch_ok[OF this]
  show "\<exists>v. fetchAllUserRecords get = Inr v \<and>
        allUsers v = concat (map snd (binRecords v)) \<and>
        map fst (binRecords v) = ALL_USERS_BIN_IDS \<and>
        (\<forall>b \<in> set ALL_USERS_BIN_IDS.
           (get b = Response True (Json None) \<or> get b = Response True (Json (Some None))
             \<or> get b = Response True (Json (Some (Some []))))
            \<longrightarrow> map_of (binRecords v) b = Some [])"
    by (auto simp: bins_eq)
next
  fix b
  assume b: "b \<in> set ALL_USERS_BIN_IDS"
    and f: "(\<exists>j. get b = Response False j) \<or> get b = Response True BadJson
        \<or> get b = Response True JsonNull"
  from f have "read_fails (get b)" by (auto simp: read_fails_def)
  with b show "\<exists>e. fetchAllUserRecords get = Inl e" by (rule read_fails_Inl)
qed

theorem fetchAllUserRecords_empty_document_witness:
  "reads_answer (second_bin [mk_user 1 ''ann'' 10] (Response True (Json None)))
   \<and> (\<exists>v. fetchAllUserRecords (second_bin [mk_user 1 ''ann'' 10] (Response True (Json None))) = Inr v
        \<and> allUsers v = [mk_user 1 ''ann'' 10]
        \<and> map_of (binRecords v) ''68e395a643b1c97be95c2bc3'' = Some [])
   \<and> ''68e395a643b1c97be95c2bc3'' \<in> set ALL_USERS_BIN_IDS
   \<and> second_bin [mk_user 1 ''ann'' 10] (Response False (Json None)) ''68e395a643b1c97be95c2bc3''
       = Response False (Json None)
   \<and> (\<exists>e. fetchAllUserRecords (second_bin [mk_user 1 ''ann'' 10] (Response False (Json None))) = Inl e)"
proof -
  let ?g = "second_bin [mk_user 1 ''ann'' 10] (Response True (Json None))"
  let ?n = "second_bin [mk_user 1 ''ann'' 10] (Response False (Json None))"
  have a: "reads_answer ?g" by (simp add: reads_answer_def bins_eq second_bin_def)
  have e: "?g ''68e395a643b1c97be95c2bc3'' = Response True (Json None)"
    by (simp add: second_bin_def)
  have m: "''68e395a643b1c97be95c2bc3'' \<in> set ALL_USERS_BIN_IDS" by (simp add: bins_eq)
  have n: "?n ''68e395a643b1c97be95c2bc3'' = Response False (Json None)"
    by (simp add: second_bin_def)
  from fetchAllUserRecords_empty_document[of ?g] a obtain v where
    v: "fetchAllUserRecords ?g = Inr v" "allUsers v = concat (map snd (binRecords v))"
       "map_of (binRecords v) ''68e395a643b1c97be95c2bc3'' = Some []"
    using e by (auto simp: bins_eq)
  have "fetchAllUserRecords ?g = Inr \<lparr>allUsers = [mk_user 1 ''ann'' 10],
      binRecords = [(''68deea1543b1c97be95856b2'', [mk_user 1 ''ann'' 10]), (''68e395a643b1c97be95c2bc3'', [])]\<rparr>"
    by (simp add: fetchAllUserRecords_def bins_eq second_bin_def)
  with v have p: "\<exists>v. fetchAllUserRecords ?g = Inr v \<and> allUsers v = [mk_user 1 ''ann'' 10]
        \<and> map_of (binRecords v) ''68e395a643b1c97be95c2bc3'' = Some []"
    by auto
  from fetchAllUserRecords_empty_document[of ?n] m n
  have q: "\<exists>e. fetchAllUserRecords ?n = Inl e" by blast
  from a p m n q show ?thesis by simp
qed

text \<open>
  C7 as stated fails: the backend reports an absent document with a response that is
  not ok, and \<open>fetchAllUserRecords\<close> then throws (line 119); an empty body fails to
  parse (line 120) and a body \<open>null\<close> has no property \<open>record\<close> to read (line 129).
  In each case the read of the whole registry fails, although the first partition holds
  an account.
\<close>

theorem fetchAllUserRecords_absent_document_counterexample:
  "fetchAllUserRecords (second_bin [mk_user 1 ''ann'' 10] (Response False (Json None)))
     = Inl HttpError \<and>
   fetchAllUserRecords (second_bin [mk_user 1 ''ann'' 10] (Response True BadJson))
     = Inl SyntaxError \<and>
   fetchAllUserRecords (second_bin [mk_user 1 ''ann'' 10] (Response True JsonNull))
     = Inl TypeError"
  by (simp add: fetchAllUserRecords_def bins_eq second_bin_def)

section \<open>The locator\<close>

lemma findIndex_Some:
  "findIndex P xs = Some i \<Longrightarrow> i < length xs \<and> P (xs ! i) \<and> (\<forall>j<i. \<not> P (xs ! j))"
proof (induction xs arbitrary: i)
  case Nil
  then show ?case by simp
next
  case (Cons x xs)
  show ?case
  proof (cases "P x")
    case True
    with Cons.prems show ?thesis by simp
  next
    case False
    with Cons.prems obtain k where k: "findIndex P xs = Some k" "i = Suc k" by auto
    from Cons.IH[OF k(1)] False k(2) show ?thesis
      by (auto simp: nth_Cons split: nat.splits)
  qed
qed

lemma findIndex_None: "(findIndex P xs = None) = (\<forall>x \<in> set xs. \<not> P x)"
  by (induction xs) auto

lemma find_in_entries_None:
  "(find_in_entries h uid = None) = (\<forall>(b, us) \<in> set h. \<forall>u \<in> set us. id_user u \<noteq> uid)"
proof (induction h uid rule: find_in_entries.induct)
  case (1 userId)
  then show ?case by simp
next
  case (2 b us rest userId)
  show ?case
  proof (cases "findIndex (\<lambda>u. id_user u = userId) us")
    case None
    then have "\<forall>u \<in> set us. id_user u \<noteq> userId" by (simp add: findIndex_None)
    with None 2 show ?thesis by simp
  next
    case (Some i)
    from findIndex_Some[OF Some] have "us ! i \<in> set us" "id_user (us ! i) = userId" by simp_all
    then have "\<not> (\<forall>u \<in> set us. id_user u \<noteq> userId)" by blast
    with Some show ?thesis by simp
  qed
qed

lemma find_in_entries_Some:
  "find_in_entries h uid = Some l \<Longrightarrow>
     \<exists>pre post. h = pre @ (binId l, users l) # post \<and>
        (\<forall>(b, us) \<in> set pre. \<forall>u \<in> set us. id_user u \<noteq> uid) \<and>
        findIndex (\<lambda>u. id_user u = uid) (users l) = Some (userIndex l)"
proof (induction h uid rule: find_in_entries.induct)
  case (1 userId)
  then show ?case by simp
next
  case (2 b us rest userId)
  show ?case
  proof (cases "findIndex (\<lambda>u. id_user u = userId) us")
    case None
    with 2 obtain pre post where pp: "rest = pre @ (binId l, users l) # post"
        "\<forall>(b, us) \<in> set pre. \<forall>u \<in> set us. id_user u \<noteq> userId"
        "findIndex (\<lambda>u. id_user u = userId) (users l) = Some (userIndex l)"
      by auto
    from None have "\<forall>u \<in> set us. id_user u \<noteq> userId" by (simp add: findIndex_None)
    with pp show ?thesis
      by (intro exI[of _ "(b, us) # pre"] exI[of _ post]) simp
  next
    case (Some i)
    with 2 have "l = \<lparr>binId = b, users = us, userIndex = i\<rparr>" by simp
    with Some show ?thesis
      by (intro exI[of _ "[]"] exI[of _ rest]) simp
  qed
qed

text \<open>
  C5, as the code has it. \<open>findUserAndBin\<close> has no error result. It returns nothing
  exactly when no partition of the view holds the id; otherwise it resolves to the first
  partition, in registry order, that holds the id, and to the first index of the id in
  that partition, whether or not a later partition holds the id too.
\<close>

theorem findUserAndBin_first_match:
  "(findUserAndBin v uid = None \<longleftrightarrow>
      (\<forall>(b, us) \<in> set (binRecords v). \<forall>u \<in> set us. id_user u \<noteq> uid)) \<and>
   (\<forall>l. findUserAndBin v uid = Some l \<longrightarrow>
      (\<exists>pre post. binRecords v = pre @ (binId l, users l) # post \<and>
         (\<forall>(b, us) \<in> set pre. \<forall>u \<in> set us. id_user u \<noteq> uid) \<and>
         userIndex l < length (users l) \<and> id_user (users l ! userIndex l) = uid \<and>
         (\<forall>j < userIndex l. id_user (users l ! j) \<noteq> uid)))"
proof (intro conjI allI impI)
  show "findUserAndBin v uid = None \<longleftrightarrow>
      (\<forall>(b, us) \<in> set (binRecords v). \<forall>u \<in> set us. id_user u \<noteq> uid)"
    by (simp add: findUserAndBin_def find_in_entries_None)
next
  fix l assume "findUserAndBin v uid = Some l"
  then have f: "find_in_entries (binRecords v) uid = Some l" by (simp add: findUserAndBin_def)
  from find_in_entries_Some[OF f] obtain pre post where
    pp: "binRecords v = pre @ (binId l, users l) # post"
        "\<forall>(b, us) \<in> set pre. \<forall>u \<in> set us. id_user u \<noteq> uid"
        "findIndex (\<lambda>u. id_user u = uid) (users l) = Some (userIndex l)" by blast
  from findIndex_Some[OF pp(3)] pp(1,2)
  show "\<exists>pre post. binRecords v = pre @ (binId l, users l) # post \<and>
         (\<forall>(b, us) \<in> set pre. \<forall>u \<in> set us. id_user u \<noteq> uid) \<and>
         userIndex l < length (users l) \<and> id_user (users l ! userIndex l) = uid \<and>
         (\<forall>j < userIndex l. id_user (users l ! j) \<noteq> uid)"
    by (intro exI[of _ pre] exI[of _ post]) simp
qed

theorem findUserAndBin_first_match_witness:
  "findUserAndBin dup_view 7 =
     Some \<lparr>binId = ''68deea1543b1c97be95856b2'', users = [mk_user 7 ''ann'' 10], userIndex = 0\<rparr> \<and>
   (\<exists>pre post. binRecords dup_view
        = pre @ (''68deea1543b1c97be95856b2'', [mk_user 7 ''ann'' 10]) # post \<and>
      (\<forall>(b, us) \<in> set pre. \<forall>u \<in> set us. id_user u \<noteq> 7))"
proof -
  have f: "findUserAndBin dup_view 7 =
     Some \<lparr>binId = ''68deea1543b1c97be95856b2'', users = [mk_user 7 ''ann'' 10], userIndex = 0\<rparr>"
    by (simp add: dup_view_def findUserAndBin_def mk_user_def)
  from findUserAndBin_first_match[of dup_view 7] f obtain pre post where
    "binRecords dup_view = pre @ (''68deea1543b1c97be95856b2'', [mk_user 7 ''ann'' 10]) # post"
    "\<forall>(b, us) \<in> set pre. \<forall>u \<in> set us. id_user u \<noteq> 7"
    by auto
  then show ?thesis using f by (intro conjI exI[of _ pre] exI[of _ post]) simp_all
qed

text \<open>
  C5 as the specification states it fails: the view read from two partitions that both
  hold the id 7 is located without any error, at the copy in the first partition.
\<close>

theorem findUserAndBin_duplicate_counterexample:
  "fetchAllUserRecords (two_bins [mk_user 7 ''ann'' 10] [mk_user 7 ''bob'' 20]) = Inr dup_view \<and>
   findUserAndBin dup_view 7 =
     Some \<lparr>binId = ''68deea1543b1c97be95856b2'', users = [mk_user 7 ''ann'' 10], userIndex = 0\<rparr>"
  by (simp add: fetch_two_bins dup_view_def findUserAndBin_def mk_user_def)

section \<open>Handlers that debit one account\<close>

lemma answers_iff: "answers r = (\<not> read_fails r)"
  by (cases r rule: answers.cases) (auto simp: read_fails_def)

lemma fetch_Inr_answers: "fetchAllUserRecords get = Inr v \<Longrightarrow> reads_answer get"
  unfolding reads_answer_def list_all_iff answers_iff
  using read_fails_Inl by fastforce

lemma fetch_Inr_shape:
  assumes "fetchAllUserRecords get = Inr v"
  shows "map fst (binRecords v) = ALL_USERS_BIN_IDS \<and> allUsers v = concat (map snd (binRecords v))"
  using fetch_ok[OF fetch_Inr_answers[OF assms]] assms by (auto simp: bins_eq)

lemma bins_distinct: "distinct ALL_USERS_BIN_IDS"
  by (simp add: bins_eq)

lemma arr_modify:
  "arr (modify h b i f) b' = (if b' = b then (arr h b)[i := f (arr h b ! i)] else arr h b')"
  by (induction h) (auto simp: arr_def modify_def)

lemma modify_keys: "map fst (modify h b i f) = map fst h"
  by (induction h) (auto simp: modify_def)

lemma find_in_entries_mem:
  "find_in_entries h uid = Some l \<Longrightarrow> (binId l, users l) \<in> set h"
  using find_in_entries_Some[of h uid l] by auto

lemma find_in_entries_arr:
  "distinct (map fst h) \<Longrightarrow> find_in_entries h uid = Some l \<Longrightarrow> arr h (binId l) = users l"
  using find_in_entries_mem[of h uid l] by (simp add: arr_def)

lemma find_in_entries_index:
  "find_in_entries h uid = Some l \<Longrightarrow>
     userIndex l < length (users l) \<and> id_user (users l ! userIndex l) = uid"
  using find_in_entries_Some[of h uid l] findIndex_Some[of "\<lambda>u. id_user u = uid" "users l" "userIndex l"]
  by auto

lemma located_facts:
  assumes "fetchAllUserRecords get = Inr v" and "findUserAndBin v uid = Some l"
  shows "arr (binRecords v) (binId l) = users l"
    and "userIndex l < length (users l)"
    and "id_user (users l ! userIndex l) = uid"
    and "binId l \<in> set ALL_USERS_BIN_IDS"
proof -
  have d: "distinct (map fst (binRecords v))"
    using fetch_Inr_shape[OF assms(1)] bins_distinct by simp
  have f: "find_in_entries (binRecords v) uid = Some l"
    using assms(2) by (simp add: findUserAndBin_def)
  show "arr (binRecords v) (binId l) = users l" by (rule find_in_entries_arr[OF d f])
  show "userIndex l < length (users l)" "id_user (users l ! userIndex l) = uid"
    using find_in_entries_index[OF f] by simp_all
  have "binId l \<in> fst ` set (binRecords v)" using find_in_entries_mem[OF f] by force
  then show "binId l \<in> set ALL_USERS_BIN_IDS"
    using fetch_Inr_shape[OF assms(1)] by (metis set_map)
qed

lemma commit_nil: "commit s [] pr = s"
  by (simp add: commit_def)

lemma pay_fee_insufficient:
  assumes "fetchAllUserRecords get = Inr v" and "findUserAndBin v userId = Some l"
      and "authTokens (users l ! userIndex l) < 1000"
  shows "pay_fee get pr userId = (reply 400 False ''Not enough AuthTokens.'', [])"
  using assms located_facts(1)[OF assms(1,2)] by (simp add: pay_fee_def)

lemma create_group_insufficient:
  assumes "fetchAllUserRecords get = Inr v" and "findUserAndBin v userId = Some l"
      and "authTokens (users l ! userIndex l) < 5000"
      and "userId \<noteq> 0" "groupName \<noteq> []" "groupDescription \<noteq> []"
      and "groupsRes = Response True (Json r)"
  shows "create_group get groupsRes pr now userId groupName groupDescription groupIconUrl
     = (reply 403 False ''Insufficient AuthTokens.'', [])"
  using assms located_facts(1)[OF assms(1,2)] by (simp add: create_group_def)

lemma pay_fee_success:
  assumes "fetchAllUserRecords get = Inr v" and "findUserAndBin v userId = Some l"
      and "\<not> authTokens (users l ! userIndex l) < 1000" and "\<not> put_rejected (pr 0)"
  shows "pay_fee get pr userId =
     (\<lparr>status = 200, success = True, message = ''Payment successful!'',
       payload = NewAuthTokens (authTokens (users l ! userIndex l) - 1000)\<rparr>,
      [(binId l, UsersBody ((users l)[userIndex l :=
          (users l ! userIndex l)\<lparr>authTokens := authTokens (users l ! userIndex l) - 1000\<rparr>]))])"
  using assms located_facts(1,2)[OF assms(1,2)]
  by (simp add: pay_fee_def arr_modify all_rejects_def Let_def)

lemma pay_fee_success_inv:
  assumes "pay_fee get pr userId = (resp, puts)" and "success resp"
  shows "\<exists>v l. fetchAllUserRecords get = Inr v \<and> findUserAndBin v userId = Some l \<and>
      \<not> authTokens (users l ! userIndex l) < 1000 \<and> \<not> put_rejected (pr 0)"
proof (cases "fetchAllUserRecords get")
  case (Inl e)
  with assms show ?thesis by (auto simp: pay_fee_def internal_error_def reply_def)
next
  case (Inr v)
  show ?thesis
  proof (cases "findUserAndBin v userId")
    case None
    with Inr assms show ?thesis by (auto simp: pay_fee_def internal_error_def reply_def)
  next
    case (Some l)
    note lf = located_facts(1)[OF Inr Some]
    from assms Inr Some lf have "\<not> authTokens (users l ! userIndex l) < 1000"
      by (auto simp: pay_fee_def internal_error_def reply_def Let_def split: if_splits)
    moreover from assms Inr Some lf have "\<not> put_rejected (pr 0)"
      by (auto simp: pay_fee_def internal_error_def reply_def Let_def all_rejects_def split: if_splits)
    ultimately show ?thesis using Inr Some by blast
  qed
qed

lemma put_ok_iff: "put_ok o1 = (o1 = PutResponse True)"
  by (cases o1) auto

lemma commit_single:
  "put_ok (pr 0) \<Longrightarrow> commit s [(b, UsersBody us)] pr
     = s(b := \<lparr>content = Some (Some us), revision = Suc (revision (s b))\<rparr>)"
  by (simp add: commit_def put_ok_iff)

lemma backend_reads_answer: "reads_answer (backend_get s)"
  by (simp add: reads_answer_def backend_get_def list_all_iff)

lemma fetch_backend:
  "fetchAllUserRecords (backend_get s) =
     Inr \<lparr>allUsers = concat (map (\<lambda>b. binUsers_of (content (s b))) ALL_USERS_BIN_IDS),
          binRecords = map (\<lambda>b. (b, binUsers_of (content (s b)))) ALL_USERS_BIN_IDS\<rparr>"
  using fetch_ok[OF backend_reads_answer, of s] by (simp add: backend_get_def)

lemma findIndex_map: "findIndex (\<lambda>u. P (f u)) us = findIndex P (map f us)"
  by (induction us) auto

lemma findIndex_update:
  assumes "\<And>u. id_user (f u) = id_user u"
  shows "findIndex (\<lambda>u. id_user u = uid) (us[i := f (us ! i)]) = findIndex (\<lambda>u. id_user u = uid) us"
proof -
  have eq: "map id_user (us[i := f (us ! i)]) = map id_user us"
  proof (cases "i < length us")
    case True
    then show ?thesis by (simp add: map_update assms list_update_same_conv)
  next
    case False
    then have "length us \<le> i" by simp
    then show ?thesis by (simp add: list_update_beyond)
  qed
  have A: "findIndex (\<lambda>u. id_user u = uid) xs = findIndex (\<lambda>x. x = uid) (map id_user xs)" for xs
    using findIndex_map[of "\<lambda>x. x = uid" id_user xs] by simp
  show ?thesis by (simp only: A eq)
qed

lemma find_in_entries_modify:
  assumes "\<And>u. id_user (f u) = id_user u"
  shows "find_in_entries (modify h b i f) uid =
     map_option (\<lambda>l. l\<lparr>users := (if binId l = b then (users l)[i := f (users l ! i)] else users l)\<rparr>)
       (find_in_entries h uid)"
proof (induction h)
  case Nil
  then show ?case by (simp add: modify_def)
next
  case (Cons e h)
  obtain k us where e: "e = (k, us)" by (cases e)
  have m: "modify ((k, us) # h) b i f = (if k = b then (k, us[i := f (us ! i)]) else (k, us)) # modify h b i f"
    by (simp add: modify_def)
  show ?case
    using Cons.IH findIndex_update[OF assms, of uid us i]
    by (simp add: m e split: option.splits)
qed

lemma find_findIndex: "find P xs = map_option (\<lambda>i. xs ! i) (findIndex P xs)"
  by (induction xs) (auto simp: option.map_comp comp_def)

lemma find_app: "find P (xs @ ys) = (case find P xs of None \<Rightarrow> find P ys | Some x \<Rightarrow> Some x)"
  by (induction xs) auto

lemma find_concat_entries:
  "find (\<lambda>u. id_user u = uid) (concat (map snd h))
     = map_option (\<lambda>l. users l ! userIndex l) (find_in_entries h uid)"
proof (induction h)
  case Nil
  then show ?case by simp
next
  case (Cons e h)
  obtain k us where e: "e = (k, us)" by (cases e)
  show ?case using Cons.IH
    by (simp add: e find_app find_findIndex[of _ us] split: option.splits)
qed

lemma modify_tabulate:
  "modify (map (\<lambda>k. (k, g k)) ks) b i f
     = map (\<lambda>k. (k, if k = b then (g b)[i := f (g b ! i)] else g k)) ks"
  by (induction ks) (auto simp: modify_def)

lemma arr_tabulate: "b \<in> set ks \<Longrightarrow> arr (map (\<lambda>k. (k, g k)) ks) b = g b"
  by (induction ks) (auto simp: arr_def)

lemma pay_fee_success':
  assumes "fetchAllUserRecords get = Inr v" and "findUserAndBin v userId = Some l"
      and "\<not> authTokens (users l ! userIndex l) < 1000" and "\<not> put_rejected (pr 0)"
  shows "pay_fee get pr userId =
     (\<lparr>status = 200, success = True, message = ''Payment successful!'',
       payload = NewAuthTokens (authTokens (users l ! userIndex l) - 1000)\<rparr>,
      [(binId l, UsersBody (debited 1000 l))])"
  using pay_fee_success[where pr=pr, OF assms] by (simp add: debited_def)

lemma create_group_success:
  assumes "fetchAllUserRecords get = Inr v" and "findUserAndBin v userId = Some l"
      and "\<not> authTokens (users l ! userIndex l) < 5000"
      and "userId \<noteq> 0" "groupName \<noteq> []" "groupDescription \<noteq> []"
      and "groupsRes = Response True (Json r)"
      and "put_ok (pr 0)" "put_ok (pr 1)"
  shows "\<exists>g. create_group get groupsRes pr now userId groupName groupDescription groupIconUrl =
     (\<lparr>status = 200, success = True, message = ''Group created successfully!'', payload = NewGroup g\<rparr>,
      [(binId l, UsersBody (debited 5000 l)),
       (''68e18ff743b1c97be95a7ce7'', GroupsBody (groups_of r @ [g]))])"
proof -
  have nr: "\<not> all_rejects pr 2"
    using assms(8,9) by (auto simp: all_rejects_def put_ok_iff numeral_2_eq_2)
  show ?thesis
    using assms nr located_facts(1,2)[OF assms(1,2)]
    by (simp add: create_group_def arr_modify Let_def debited_def)
qed

lemma create_group_success_inv:
  assumes "create_group get groupsRes pr now userId groupName groupDescription groupIconUrl = (resp, puts)"
      and "success resp"
  shows "\<exists>v l r. fetchAllUserRecords get = Inr v \<and> findUserAndBin v userId = Some l \<and>
      \<not> authTokens (users l ! userIndex l) < 5000 \<and> userId \<noteq> 0 \<and> groupName \<noteq> [] \<and>
      groupDescription \<noteq> [] \<and> groupsRes = Response True (Json r) \<and> put_ok (pr 0) \<and> put_ok (pr 1)"
proof -
  have valid: "userId \<noteq> 0 \<and> groupName \<noteq> [] \<and> groupDescription \<noteq> []"
    using assms by (auto simp: create_group_def reply_def split: if_splits)
  show ?thesis
  proof (cases "fetchAllUserRecords get")
    case (Inl e)
    with assms valid show ?thesis by (auto simp: create_group_def internal_error_def reply_def)
  next
    case (Inr v)
    have "\<exists>r. groupsRes = Response True (Json r)"
    proof (cases groupsRes)
      case Rejected
      with assms valid Inr show ?thesis
        by (auto simp: create_group_def internal_error_def reply_def)
    next
      case (Response k j)
      show ?thesis
      proof (cases k)
        case False
        with Response assms valid Inr show ?thesis
          by (auto simp: create_group_def internal_error_def reply_def)
      next
        case True
        with Response assms valid Inr show ?thesis
          by (cases j) (auto simp: create_group_def internal_error_def reply_def)
      qed
    qed
    then obtain r where r: "groupsRes = Response True (Json r)" by blast
    show ?thesis
    proof (cases "findUserAndBin v userId")
      case None
      with Inr r assms valid show ?thesis by (auto simp: create_group_def internal_error_def reply_def)
    next
      case (Some l)
      note lf = located_facts(1)[OF Inr Some]
      from assms Inr Some lf r valid
      have "\<not> authTokens (users l ! userIndex l) < 5000 \<and> put_ok (pr 0) \<and> put_ok (pr 1)"
        by (auto simp: create_group_def internal_error_def reply_def Let_def split: if_splits)
      with Inr Some r valid show ?thesis by blast
    qed
  qed
qed

lemma backend_put_other:
  "b \<noteq> g \<or> (\<forall>us. body \<noteq> UsersBody us) \<Longrightarrow> backend_put s (g, body) out b = s b"
  by (cases "(s, (g, body), out)" rule: backend_put.cases) auto

lemma commit_pair_first:
  "put_ok (pr 0) \<Longrightarrow> b \<noteq> g \<or> (\<forall>us. body \<noteq> UsersBody us) \<Longrightarrow>
     content (commit s [(b, UsersBody us), (g, body)] pr b) = Some (Some us)"
  by (simp add: commit_def put_ok_iff backend_put_other)

lemma fetch_store0:
  "fetchAllUserRecords (backend_get store0) =
     Inr \<lparr>allUsers = [mk_user 1 ''ann'' 5000],
          binRecords = [(''68deea1543b1c97be95856b2'', [mk_user 1 ''ann'' 5000]),
                        (''68e395a643b1c97be95c2bc3'', [])]\<rparr>"
  by (simp add: fetch_backend bins_eq store0_def)

lemma pay_fee_store0:
  "pay_fee (backend_get store0) all_ok 1 =
     (\<lparr>status = 200, success = True, message = ''Payment successful!'', payload = NewAuthTokens 4000\<rparr>,
      [(''68deea1543b1c97be95856b2'', UsersBody [mk_user 1 ''ann'' 4000])])"
  by (simp add: pay_fee_def fetch_store0 findUserAndBin_def mk_user_def arr_def modify_def
      all_rejects_def all_ok_def)

lemma find_Some_nonempty: "find P xs = Some x \<Longrightarrow> length xs \<noteq> 0"
  by (cases xs) auto

lemma users_search_found:
  assumes "fetchAllUserRecords get = Inr v" and "find (\<lambda>u. id_user u = sid) (allUsers v) = Some u"
  shows "users_search get (Some sid) =
     \<lparr>status = 200, success = True, message = [], payload = PublicUser (publicUser u)\<rparr>"
  using assms find_Some_nonempty[OF assms(2)] by (simp add: users_search_def Let_def)

text \<open>
  The two fee handlers reject a payer who cannot pay. In /api/creator/pay-fee and
  /api/create-group, when the request reaches the balance check (the reads succeed, the
  payer is found, and for create-group the fields are present) and the payer's balance
  is less than the fee (1000, 5000), the handler answers with its insufficient-balance
  rejection and issues no PUT at all: every store is left as it was.
\<close>

theorem insufficient_balance_no_write:
  assumes "fetchAllUserRecords get = Inr v" and "findUserAndBin v userId = Some l"
  shows "(authTokens (users l ! userIndex l) < 1000 \<longrightarrow>
            pay_fee get pr userId = (reply 400 False ''Not enough AuthTokens.'', []) \<and>
            (\<forall>s. commit s (snd (pay_fee get pr userId)) pr = s)) \<and>
         (authTokens (users l ! userIndex l) < 5000 \<and> userId \<noteq> 0 \<and> groupName \<noteq> [] \<and>
          groupDescription \<noteq> [] \<and> groupsRes = Response True (Json r) \<longrightarrow>
            create_group get groupsRes pr now userId groupName groupDescription groupIconUrl
              = (reply 403 False ''Insufficient AuthTokens.'', []) \<and>
            (\<forall>s. commit s (snd (create_group get groupsRes pr now userId groupName
                                  groupDescription groupIconUrl)) pr = s))"
  using pay_fee_insufficient[OF assms, of pr]
    create_group_insufficient[OF assms, of groupName groupDescription groupsRes r pr now groupIconUrl]
  by (auto simp: commit_nil)

theorem insufficient_balance_no_write_witness:
  "fetchAllUserRecords (two_bins [mk_user 1 ''ann'' 999] []) =
      Inr \<lparr>allUsers = [mk_user 1 ''ann'' 999],
           binRecords = [(''68deea1543b1c97be95856b2'', [mk_user 1 ''ann'' 999]), (''68e395a643b1c97be95c2bc3'', [])]\<rparr>
   \<and> pay_fee (two_bins [mk_user 1 ''ann'' 999] []) all_ok 1 = (reply 400 False ''Not enough AuthTokens.'', [])
   \<and> create_group (two_bins [mk_user 1 ''ann'' 999] []) (Response True (Json None)) all_ok ''t'' 1 ''g'' ''d'' []
        = (reply 403 False ''Insufficient AuthTokens.'', [])
   \<and> commit store0 (snd (pay_fee (two_bins [mk_user 1 ''ann'' 999] []) all_ok 1)) all_ok = store0"
proof -
  let ?v = "\<lparr>allUsers = [mk_user 1 ''ann'' 999],
           binRecords = [(''68deea1543b1c97be95856b2'', [mk_user 1 ''ann'' 999]), (''68e395a643b1c97be95c2bc3'', [])]\<rparr>"
  let ?l = "\<lparr>binId = ''68deea1543b1c97be95856b2'', users = [mk_user 1 ''ann'' 999], userIndex = 0\<rparr>"
  have f: "fetchAllUserRecords (two_bins [mk_user 1 ''ann'' 999] []) = Inr ?v"
    by (simp add: fetch_two_bins)
  have g: "findUserAndBin ?v 1 = Some ?l"
    by (simp add: findUserAndBin_def mk_user_def)
  have b: "authTokens (users ?l ! userIndex ?l) < 1000" "authTokens (users ?l ! userIndex ?l) < 5000"
    by (simp_all add: mk_user_def)
  from insufficient_balance_no_write[OF f g, of all_ok "''g''" "''d''" "Response True (Json None)" None "''t''" "[]"] b f
  show ?thesis by (simp add: commit_nil)
qed

text \<open>
  C1, as the code has it. The write-back of /api/creator/pay-fee and /api/create-group is
  computed from the one read at the start of the request and is sent without any
  re-read or comparison of revision markers: a handler that answers success has issued
  the PUT of the payer's partition with the list it read, the payer debited, and on an
  ok response that list becomes the partition's content whatever store \<open>s1\<close> the
  write meets.
\<close>

theorem write_back_without_marker_check:
  "(pay_fee (backend_get s0) pr userId = (resp, puts) \<and> success resp \<and> put_ok (pr 0) \<longrightarrow>
      (\<exists>v l. fetchAllUserRecords (backend_get s0) = Inr v \<and> findUserAndBin v userId = Some l \<and>
         puts = [(binId l, UsersBody (debited 1000 l))] \<and>
         (\<forall>s1. content (commit s1 puts pr (binId l)) = Some (Some (debited 1000 l))))) \<and>
   (create_group (backend_get s0) groupsRes pr now userId groupName groupDescription groupIconUrl
        = (resp', puts') \<and> success resp' \<longrightarrow>
      (\<exists>v l gs. fetchAllUserRecords (backend_get s0) = Inr v \<and> findUserAndBin v userId = Some l \<and>
         puts' = [(binId l, UsersBody (debited 5000 l)), (''68e18ff743b1c97be95a7ce7'', GroupsBody gs)] \<and>
         (\<forall>s1. content (commit s1 puts' pr (binId l)) = Some (Some (debited 5000 l)))))"
proof (intro conjI impI)
  assume a: "pay_fee (backend_get s0) pr userId = (resp, puts) \<and> success resp \<and> put_ok (pr 0)"
  then obtain v l where vl: "fetchAllUserRecords (backend_get s0) = Inr v"
      "findUserAndBin v userId = Some l" "\<not> authTokens (users l ! userIndex l) < 1000"
      "\<not> put_rejected (pr 0)"
    using pay_fee_success_inv[of "backend_get s0" pr userId resp puts] by blast
  from pay_fee_success'[where pr=pr, OF vl] a have p: "puts = [(binId l, UsersBody (debited 1000 l))]" by simp
  have "\<forall>s1. content (commit s1 puts pr (binId l)) = Some (Some (debited 1000 l))"
    using a by (simp add: p commit_single)
  with vl(1,2) p show "\<exists>v l. fetchAllUserRecords (backend_get s0) = Inr v \<and> findUserAndBin v userId = Some l \<and>
         puts = [(binId l, UsersBody (debited 1000 l))] \<and>
         (\<forall>s1. content (commit s1 puts pr (binId l)) = Some (Some (debited 1000 l)))"
    by blast
next
  assume a: "create_group (backend_get s0) groupsRes pr now userId groupName groupDescription groupIconUrl
        = (resp', puts') \<and> success resp'"
  then obtain v l r where vl: "fetchAllUserRecords (backend_get s0) = Inr v"
      "findUserAndBin v userId = Some l" "\<not> authTokens (users l ! userIndex l) < 5000"
      "userId \<noteq> 0" "groupName \<noteq> []" "groupDescription \<noteq> []"
      "groupsRes = Response True (Json r)" "put_ok (pr 0)" "put_ok (pr 1)"
    using create_group_success_inv[of "backend_get s0" groupsRes pr now userId groupName
        groupDescription groupIconUrl resp' puts'] by blast
  from create_group_success[where pr=pr, OF vl, of now groupIconUrl] a obtain g where
    p: "puts' = [(binId l, UsersBody (debited 5000 l)),
                 (''68e18ff743b1c97be95a7ce7'', GroupsBody (groups_of r @ [g]))]" by auto
  have "\<forall>s1. content (commit s1 puts' pr (binId l)) = Some (Some (debited 5000 l))"
    using vl(8) by (simp add: p commit_pair_first)
  with vl(1,2) p show "\<exists>v l gs. fetchAllUserRecords (backend_get s0) = Inr v \<and> findUserAndBin v userId = Some l \<and>
         puts' = [(binId l, UsersBody (debited 5000 l)), (''68e18ff743b1c97be95a7ce7'', GroupsBody gs)] \<and>
         (\<forall>s1. content (commit s1 puts' pr (binId l)) = Some (Some (debited 5000 l)))"
    by blast
qed

theorem write_back_without_marker_check_witness:
  "pay_fee (backend_get store0) all_ok 1 =
       (\<lparr>status = 200, success = True, message = ''Payment successful!'', payload = NewAuthTokens 4000\<rparr>,
        [(''68deea1543b1c97be95856b2'', UsersBody [mk_user 1 ''ann'' 4000])])
   \<and> put_ok (all_ok 0)
   \<and> (\<exists>l. binId l = ''68deea1543b1c97be95856b2'' \<and> debited 1000 l = [mk_user 1 ''ann'' 4000] \<and>
         (\<forall>s1. content (commit s1 [(''68deea1543b1c97be95856b2'', UsersBody [mk_user 1 ''ann'' 4000])] all_ok (binId l))
              = Some (Some (debited 1000 l))))
   \<and> success (fst (create_group (backend_get store0) (Response True (Json None)) all_ok ''t'' 1 ''g'' ''d'' []))
   \<and> (\<exists>b us gs. snd (create_group (backend_get store0) (Response True (Json None)) all_ok ''t'' 1 ''g'' ''d'' [])
          = [(b, UsersBody us), (''68e18ff743b1c97be95a7ce7'', GroupsBody gs)] \<and>
         (\<forall>s1. content (commit s1 (snd (create_group (backend_get store0) (Response True (Json None)) all_ok ''t'' 1 ''g'' ''d'' [])) all_ok b)
              = Some (Some us)))"
proof -
  let ?r = "\<lparr>status = 200, success = True, message = ''Payment successful!'', payload = NewAuthTokens 4000\<rparr>"
  let ?p = "[(''68deea1543b1c97be95856b2'', UsersBody [mk_user 1 ''ann'' 4000])]"
  let ?cg = "create_group (backend_get store0) (Response True (Json None)) all_ok ''t'' 1 ''g'' ''d'' []"
  have ok: "put_ok (all_ok 0)" by (simp add: all_ok_def)
  have cg: "success (fst ?cg)"
    by (simp add: create_group_def fetch_store0 findUserAndBin_def mk_user_def arr_def modify_def
      all_rejects_def all_ok_def numeral_2_eq_2 Let_def)
  note T = write_back_without_marker_check[of store0 all_ok 1 ?r ?p "Response True (Json None)" "''t''" "''g''" "''d''" "[]" "fst ?cg" "snd ?cg"]
  from conjunct1[OF T] pay_fee_store0 ok obtain v l where
    l: "fetchAllUserRecords (backend_get store0) = Inr v" "findUserAndBin v 1 = Some l"
       "?p = [(binId l, UsersBody (debited 1000 l))]"
       "\<forall>s1. content (commit s1 ?p all_ok (binId l)) = Some (Some (debited 1000 l))"
    by auto
  from conjunct2[OF T] cg obtain v' l' gs where
    l': "snd ?cg = [(binId l', UsersBody (debited 5000 l')), (''68e18ff743b1c97be95a7ce7'', GroupsBody gs)]"
        "\<forall>s1. content (commit s1 (snd ?cg) all_ok (binId l')) = Some (Some (debited 5000 l'))"
    by auto
  have A: "\<exists>l. binId l = ''68deea1543b1c97be95856b2'' \<and> debited 1000 l = [mk_user 1 ''ann'' 4000] \<and>
         (\<forall>s1. content (commit s1 ?p all_ok (binId l)) = Some (Some (debited 1000 l)))"
    using l(3,4) by (intro exI[of _ l]) simp
  have B: "\<exists>b us gs. snd ?cg = [(b, UsersBody us), (''68e18ff743b1c97be95a7ce7'', GroupsBody gs)] \<and>
         (\<forall>s1. content (commit s1 (snd ?cg) all_ok b) = Some (Some us))"
    using l' by (intro exI[of _ "binId l'"] exI[of _ "debited 5000 l'"] exI[of _ gs]) simp
  from pay_fee_store0 ok A cg B show ?thesis by simp
qed

text \<open>
  C1 as the specification states it fails. The payer's partition is read at revision 0
  with 5000 tokens; another writer then commits 9000 tokens, which changes the marker;
  the handler's write is still performed, it answers success, and the partition ends
  with 4000 tokens: the other writer's update is lost.
\<close>

theorem pay_fee_overwrites_concurrent_write:
  "revision (store1 ''68deea1543b1c97be95856b2'') \<noteq> revision (store0 ''68deea1543b1c97be95856b2'')
   \<and> content (store1 ''68deea1543b1c97be95856b2'') = Some (Some [mk_user 1 ''ann'' 9000])
   \<and> pay_fee (backend_get store0) all_ok 1 =
       (\<lparr>status = 200, success = True, message = ''Payment successful!'', payload = NewAuthTokens 4000\<rparr>,
        [(''68deea1543b1c97be95856b2'', UsersBody [mk_user 1 ''ann'' 4000])])
   \<and> content (commit store1 (snd (pay_fee (backend_get store0) all_ok 1)) all_ok ''68deea1543b1c97be95856b2'')
       = Some (Some [mk_user 1 ''ann'' 4000])"
  by (simp add: pay_fee_store0 store1_def store0_def commit_def all_ok_def)

text \<open>
  C8. Read-your-write through the registry reader. A list of accounts written to a
  partition by one PUT that is answered ok is exactly what the next read of the
  registry holds for that partition. Hence, for every change \<open>f\<close> of one located account
  that keeps its id, written back in the account's list: the next lookup finds the
  account in the same partition at the same index, in exactly the list that was
  written, with the value \<open>f\<close> gave it. /api/users/search/:id answers after the commit
  with the five public fields of that value and with nothing else of it.
  /api/creator/pay-fee is such a change: when it answers success its one PUT carries
  the located list with 1000 taken from the account's balance, and the balance it
  reports is the one a lookup after the commit finds.
\<close>

theorem single_partition_read_your_write:
  assumes "fetchAllUserRecords (backend_get s) = Inr v"
      and "findUserAndBin v userId = Some l"
      and "\<And>u. id_user (f u) = id_user u"
      and "put_ok (pr 0)"
  shows "(\<forall>b \<in> set ALL_USERS_BIN_IDS. \<forall>ws. \<exists>w.
            fetchAllUserRecords (backend_get (commit s [(b, UsersBody ws)] pr)) = Inr w \<and>
            arr (binRecords w) b = ws) \<and>
     (let written = (users l)[userIndex l := f (users l ! userIndex l)];
          s' = commit s [(binId l, UsersBody written)] pr
      in content (s' (binId l)) = Some (Some written) \<and>
         (\<exists>v' l'. fetchAllUserRecords (backend_get s') = Inr v' \<and>
            findUserAndBin v' userId = Some l' \<and>
            binId l' = binId l \<and> userIndex l' = userIndex l \<and> users l' = written \<and>
            users l' ! userIndex l' = f (users l ! userIndex l)) \<and>
         users_search (backend_get s') (Some userId) =
           \<lparr>status = 200, success = True, message = [],
            payload = PublicUser
              \<lparr>id_public = userId,
               username_public = username (f (users l ! userIndex l)),
               bio_public = bio (f (users l ! userIndex l)),
               pfp_public = pfp (f (users l ! userIndex l)),
               friends_public = (case friends (f (users l ! userIndex l)) of
                                   Some fs \<Rightarrow> length fs | None \<Rightarrow> 0)\<rparr>\<rparr>) \<and>
     (\<forall>resp puts. pay_fee (backend_get s) pr userId = (resp, puts) \<and> success resp \<longrightarrow>
        puts = [(binId l, UsersBody ((users l)[userIndex l :=
                  (users l ! userIndex l)\<lparr>authTokens := authTokens (users l ! userIndex l) - 1000\<rparr>]))] \<and>
        payload resp = NewAuthTokens (authTokens (users l ! userIndex l) - 1000))"
proof -
  let ?g = "\<lambda>b. binUsers_of (content (s b))"
  note lf = located_facts[OF assms(1,2)]
  let ?b = "binId l" and ?i = "userIndex l"
  let ?us = "(users l)[?i := f (users l ! ?i)]"
  have A: "\<forall>b \<in> set ALL_USERS_BIN_IDS. \<forall>ws. \<exists>w.
            fetchAllUserRecords (backend_get (commit s [(b, UsersBody ws)] pr)) = Inr w \<and>
            arr (binRecords w) b = ws"
  proof (intro ballI allI)
    fix b ws
    assume b: "b \<in> set ALL_USERS_BIN_IDS"
    let ?t = "commit s [(b, UsersBody ws)] pr"
    let ?w = "\<lparr>allUsers = concat (map (\<lambda>k. binUsers_of (content (?t k))) ALL_USERS_BIN_IDS),
               binRecords = map (\<lambda>k. (k, binUsers_of (content (?t k)))) ALL_USERS_BIN_IDS\<rparr>"
    have "fetchAllUserRecords (backend_get ?t) = Inr ?w" by (rule fetch_backend)
    moreover have "arr (binRecords ?w) b = ws"
      using b assms(4) by (simp add: arr_tabulate commit_single)
    ultimately show "\<exists>w. fetchAllUserRecords (backend_get ?t) = Inr w \<and> arr (binRecords w) b = ws"
      by (intro exI[of _ ?w] conjI)
  qed
  let ?s' = "commit s [(?b, UsersBody ?us)] pr"
  have s': "?s' = s(?b := \<lparr>content = Some (Some ?us), revision = Suc (revision (s ?b))\<rparr>)"
    using assms(4) by (simp add: commit_single)
  have c: "content (?s' ?b) = Some (Some ?us)" by (simp add: s')
  have hv: "binRecords v = map (\<lambda>k. (k, ?g k)) ALL_USERS_BIN_IDS"
    using assms(1) by (auto simp: fetch_backend)
  have gb: "?g ?b = users l"
    using lf(1,4) by (simp add: hv arr_tabulate)
  let ?h' = "modify (binRecords v) ?b ?i f"
  have h': "map (\<lambda>k. (k, binUsers_of (content (?s' k)))) ALL_USERS_BIN_IDS = ?h'"
    by (simp add: hv modify_tabulate s' gb cong: map_cong)
  let ?v' = "\<lparr>allUsers = concat (map snd ?h'), binRecords = ?h'\<rparr>"
  have fv': "fetchAllUserRecords (backend_get ?s') = Inr ?v'"
    unfolding fetch_backend[of ?s'] h'[symmetric] by (simp add: comp_def)
  let ?l' = "l\<lparr>users := ?us\<rparr>"
  have fl: "find_in_entries (binRecords v) userId = Some l"
    using assms(2) by (simp add: findUserAndBin_def)
  have fl': "findUserAndBin ?v' userId = Some ?l'"
    by (simp add: findUserAndBin_def find_in_entries_modify[of f, OF assms(3)] fl)
  have u': "users ?l' ! userIndex ?l' = f (users l ! ?i)"
    using lf(2) by simp
  have fa: "find (\<lambda>u. id_user u = userId) (allUsers ?v') = Some (users ?l' ! userIndex ?l')"
    using fl' by (simp add: find_concat_entries findUserAndBin_def)
  have idf: "id_user (f (users l ! ?i)) = userId"
    using lf(3) assms(3) by simp
  have us: "users_search (backend_get ?s') (Some userId) =
           \<lparr>status = 200, success = True, message = [],
            payload = PublicUser
              \<lparr>id_public = userId,
               username_public = username (f (users l ! userIndex l)),
               bio_public = bio (f (users l ! userIndex l)),
               pfp_public = pfp (f (users l ! userIndex l)),
               friends_public = (case friends (f (users l ! userIndex l)) of
                                   Some fs \<Rightarrow> length fs | None \<Rightarrow> 0)\<rparr>\<rparr>"
    unfolding users_search_found[OF fv' fa] u' by (simp add: publicUser_def idf)
  have lk: "\<exists>v' l'. fetchAllUserRecords (backend_get ?s') = Inr v' \<and>
            findUserAndBin v' userId = Some l' \<and>
            binId l' = binId l \<and> userIndex l' = userIndex l \<and> users l' = ?us \<and>
            users l' ! userIndex l' = f (users l ! userIndex l)"
    apply (rule exI[of _ ?v'])
    apply (rule exI[of _ ?l'])
    using fv' fl' u' by simp
  have B: "let written = ?us; s' = commit s [(binId l, UsersBody written)] pr
      in content (s' (binId l)) = Some (Some written) \<and>
         (\<exists>v' l'. fetchAllUserRecords (backend_get s') = Inr v' \<and>
            findUserAndBin v' userId = Some l' \<and>
            binId l' = binId l \<and> userIndex l' = userIndex l \<and> users l' = written \<and>
            users l' ! userIndex l' = f (users l ! userIndex l)) \<and>
         users_search (backend_get s') (Some userId) =
           \<lparr>status = 200, success = True, message = [],
            payload = PublicUser
              \<lparr>id_public = userId,
               username_public = username (f (users l ! userIndex l)),
               bio_public = bio (f (users l ! userIndex l)),
               pfp_public = pfp (f (users l ! userIndex l)),
               friends_public = (case friends (f (users l ! userIndex l)) of
                                   Some fs \<Rightarrow> length fs | None \<Rightarrow> 0)\<rparr>\<rparr>"
    unfolding Let_def using c lk us by (intro conjI)
  have C: "\<forall>resp puts. pay_fee (backend_get s) pr userId = (resp, puts) \<and> success resp \<longrightarrow>
        puts = [(binId l, UsersBody ((users l)[userIndex l :=
                  (users l ! userIndex l)\<lparr>authTokens := authTokens (users l ! userIndex l) - 1000\<rparr>]))] \<and>
        payload resp = NewAuthTokens (authTokens (users l ! userIndex l) - 1000)"
  proof (intro allI impI)
    fix resp puts
    assume p: "pay_fee (backend_get s) pr userId = (resp, puts) \<and> success resp"
    then have p1: "pay_fee (backend_get s) pr userId = (resp, puts)" and p2: "success resp"
      by simp_all
    from pay_fee_success_inv[OF p1 p2] assms(1,2)
    have n: "\<not> authTokens (users l ! userIndex l) < 1000" "\<not> put_rejected (pr 0)" by auto
    from pay_fee_success[where pr=pr, OF assms(1,2) n] p1
    show "puts = [(binId l, UsersBody ((users l)[userIndex l :=
                  (users l ! userIndex l)\<lparr>authTokens := authTokens (users l ! userIndex l) - 1000\<rparr>]))] \<and>
        payload resp = NewAuthTokens (authTokens (users l ! userIndex l) - 1000)"
      by auto
  qed
  from A B C show ?thesis by (intro conjI)
qed

theorem single_partition_read_your_write_witness:
  "fetchAllUserRecords (backend_get store0) =
     Inr \<lparr>allUsers = [mk_user 1 ''ann'' 5000],
          binRecords = [(''68deea1543b1c97be95856b2'', [mk_user 1 ''ann'' 5000]),
                        (''68e395a643b1c97be95c2bc3'', [])]\<rparr>
   \<and> findUserAndBin \<lparr>allUsers = [mk_user 1 ''ann'' 5000],
          binRecords = [(''68deea1543b1c97be95856b2'', [mk_user 1 ''ann'' 5000]),
                        (''68e395a643b1c97be95c2bc3'', [])]\<rparr> 1
       = Some \<lparr>binId = ''68deea1543b1c97be95856b2'', users = [mk_user 1 ''ann'' 5000], userIndex = 0\<rparr>
   \<and> (\<forall>u. id_user (u\<lparr>friends := Some [2]\<rparr>) = id_user u)
   \<and> put_ok (all_ok 0)
   \<and> ''68deea1543b1c97be95856b2'' \<in> set ALL_USERS_BIN_IDS
   \<and> pay_fee (backend_get store0) all_ok 1 =
       (\<lparr>status = 200, success = True, message = ''Payment successful!'', payload = NewAuthTokens 4000\<rparr>,
        [(''68deea1543b1c97be95856b2'', UsersBody [mk_user 1 ''ann'' 4000])])
   \<and> content (commit store0
         [(''68deea1543b1c97be95856b2'', UsersBody [(mk_user 1 ''ann'' 5000)\<lparr>friends := Some [2]\<rparr>])]
         all_ok ''68deea1543b1c97be95856b2'')
       = Some (Some [(mk_user 1 ''ann'' 5000)\<lparr>friends := Some [2]\<rparr>])
   \<and> (\<exists>v' l'. fetchAllUserRecords (backend_get (commit store0
         [(''68deea1543b1c97be95856b2'', UsersBody [(mk_user 1 ''ann'' 5000)\<lparr>friends := Some [2]\<rparr>])]
         all_ok)) = Inr v' \<and>
         findUserAndBin v' 1 = Some l' \<and>
         users l' ! userIndex l' = (mk_user 1 ''ann'' 5000)\<lparr>friends := Some [2]\<rparr>)
   \<and> users_search (backend_get (commit store0
         [(''68deea1543b1c97be95856b2'', UsersBody [(mk_user 1 ''ann'' 5000)\<lparr>friends := Some [2]\<rparr>])]
         all_ok)) (Some 1) =
       \<lparr>status = 200, success = True, message = [],
        payload = PublicUser \<lparr>id_public = 1, username_public = ''ann'', bio_public = None,
                              pfp_public = None, friends_public = 1\<rparr>\<rparr>"
proof -
  let ?v = "\<lparr>allUsers = [mk_user 1 ''ann'' 5000],
          binRecords = [(''68deea1543b1c97be95856b2'', [mk_user 1 ''ann'' 5000]),
                        (''68e395a643b1c97be95c2bc3'', [])]\<rparr>"
  let ?l = "\<lparr>binId = ''68deea1543b1c97be95856b2'', users = [mk_user 1 ''ann'' 5000], userIndex = 0\<rparr>"
  let ?f = "\<lambda>u::user. u\<lparr>friends := Some [2]\<rparr>"
  let ?s' = "commit store0
         [(''68deea1543b1c97be95856b2'', UsersBody [(mk_user 1 ''ann'' 5000)\<lparr>friends := Some [2]\<rparr>])]
         all_ok"
  have fl: "findUserAndBin ?v 1 = Some ?l"
    by (simp add: findUserAndBin_def mk_user_def)
  have idp: "\<And>u::user. id_user (?f u) = id_user u" by simp
  have ok: "put_ok (all_ok 0)" by (simp add: all_ok_def)
  have m: "''68deea1543b1c97be95856b2'' \<in> set ALL_USERS_BIN_IDS" by (simp add: bins_eq)
  note T = single_partition_read_your_write[of store0 ?v 1 ?l ?f all_ok, OF fetch_store0 fl idp ok]
  from T have c: "content (?s' ''68deea1543b1c97be95856b2'')
       = Some (Some [(mk_user 1 ''ann'' 5000)\<lparr>friends := Some [2]\<rparr>])"
    by (simp add: Let_def)
  from T have "\<exists>v' l'. fetchAllUserRecords (backend_get ?s') = Inr v' \<and>
         findUserAndBin v' 1 = Some l' \<and>
         binId l' = ''68deea1543b1c97be95856b2'' \<and> userIndex l' = 0 \<and>
         users l' = [(mk_user 1 ''ann'' 5000)\<lparr>friends := Some [2]\<rparr>] \<and>
         users l' ! userIndex l' = (mk_user 1 ''ann'' 5000)\<lparr>friends := Some [2]\<rparr>"
    by (simp add: Let_def)
  then have lk: "\<exists>v' l'. fetchAllUserRecords (backend_get ?s') = Inr v' \<and>
         findUserAndBin v' 1 = Some l' \<and>
         users l' ! userIndex l' = (mk_user 1 ''ann'' 5000)\<lparr>friends := Some [2]\<rparr>"
    by blast
  from T have us: "users_search (backend_get ?s') (Some 1) =
       \<lparr>status = 200, success = True, message = [],
        payload = PublicUser \<lparr>id_public = 1, username_public = ''ann'', bio_public = None,
                              pfp_public = None, friends_public = 1\<rparr>\<rparr>"
    by (simp add: Let_def mk_user_def)
  from fetch_store0 fl ok m pay_fee_store0 c lk us show ?thesis by simp
qed

text \<open>
  C8 as stated fails for the lookup it cites: /api/users/search/:id returns the public
  fields only, and the balance is not one of them. After /api/creator/pay-fee has
  answered success and its PUT has replaced the stored list, the balance stored is 4000
  where it was 5000, and the lookup answers what it answered before the payment.
\<close>

theorem users_search_after_pay_fee_counterexample:
  "pay_fee (backend_get store0) all_ok 1 =
       (\<lparr>status = 200, success = True, message = ''Payment successful!'', payload = NewAuthTokens 4000\<rparr>,
        [(''68deea1543b1c97be95856b2'', UsersBody [mk_user 1 ''ann'' 4000])]) \<and>
   content (store0 ''68deea1543b1c97be95856b2'') = Some (Some [mk_user 1 ''ann'' 5000]) \<and>
   content (commit store0 [(''68deea1543b1c97be95856b2'', UsersBody [mk_user 1 ''ann'' 4000])] all_ok
              ''68deea1543b1c97be95856b2'') = Some (Some [mk_user 1 ''ann'' 4000]) \<and>
   users_search (backend_get store0) (Some 1) =
       \<lparr>status = 200, success = True, message = [],
        payload = PublicUser \<lparr>id_public = 1, username_public = ''ann'', bio_public = None,
                              pfp_public = None, friends_public = 0\<rparr>\<rparr> \<and>
   users_search (backend_get (commit store0
       [(''68deea1543b1c97be95856b2'', UsersBody [mk_user 1 ''ann'' 4000])] all_ok)) (Some 1) =
       \<lparr>status = 200, success = True, message = [],
        payload = PublicUser \<lparr>id_public = 1, username_public = ''ann'', bio_public = None,
                              pfp_public = None, friends_public = 0\<rparr>\<rparr>"
proof -
  let ?p = "[(''68deea1543b1c97be95856b2'', UsersBody [mk_user 1 ''ann'' 4000])]"
  have ok: "put_ok (all_ok 0)" by (simp add: all_ok_def)
  have s': "commit store0 ?p all_ok = store0(''68deea1543b1c97be95856b2'' :=
      \<lparr>content = Some (Some [mk_user 1 ''ann'' 4000]),
       revision = Suc (revision (store0 ''68deea1543b1c97be95856b2''))\<rparr>)"
    using ok by (rule commit_single)
  have c0: "content (store0 ''68deea1543b1c97be95856b2'') = Some (Some [mk_user 1 ''ann'' 5000])"
    by (simp add: store0_def)
  have c1: "content (commit store0 ?p all_ok ''68deea1543b1c97be95856b2'')
      = Some (Some [mk_user 1 ''ann'' 4000])"
    by (simp add: s')
  have f1: "fetchAllUserRecords (backend_get (commit store0 ?p all_ok)) =
     Inr \<lparr>allUsers = [mk_user 1 ''ann'' 4000],
          binRecords = [(''68deea1543b1c97be95856b2'', [mk_user 1 ''ann'' 4000]),
                        (''68e395a643b1c97be95c2bc3'', [])]\<rparr>"
    by (simp add: fetch_backend s' bins_eq store0_def)
  have u0: "users_search (backend_get store0) (Some 1) =
       \<lparr>status = 200, success = True, message = [],
        payload = PublicUser \<lparr>id_public = 1, username_public = ''ann'', bio_public = None,
                              pfp_public = None, friends_public = 0\<rparr>\<rparr>"
    by (simp add: users_search_def fetch_store0 publicUser_def mk_user_def)
  have u1: "users_search (backend_get (commit store0 ?p all_ok)) (Some 1) =
       \<lparr>status = 200, success = True, message = [],
        payload = PublicUser \<lparr>id_public = 1, username_public = ''ann'', bio_public = None,
                              pfp_public = None, friends_public = 0\<rparr>\<rparr>"
    using f1 by (simp add: users_search_def publicUser_def mk_user_def)
  from pay_fee_store0 c0 c1 u0 u1 show ?thesis by (intro conjI)
qed

section \<open>Updates of the arrays of a view\<close>

lemma arr_modify_length: "length (arr (modify h b i f) b') = length (arr h b')"
  by (simp add: arr_modify)

lemma nth_arr_modify:
  "i' < length (arr h b') \<Longrightarrow>
     arr (modify h b i f) b' ! i' = (if b' = b \<and> i' = i then f (arr h b ! i) else arr h b' ! i')"
  by (auto simp: arr_modify)

section \<open>The purchase handlers\<close>

lemma lower_madeonice: "toLowerCase ''MadeOnIce'' = ''madeonice''"
  by code_simp

lemma lower_ann: "toLowerCase ''ann'' \<noteq> ''madeonice''"
  by code_simp

lemma purchase_gamepass_fails:
  "\<not> success (fst (purchase_gamepass fp get gr pr userId gameId gamepassId price)) \<and>
   snd (purchase_gamepass fp get gr pr userId gameId gamepassId price) = []"
  by (auto simp: purchase_gamepass_def located_user_def reply_def internal_error_def Let_def
      split: sum.splits fetched.splits json.splits option.splits)

lemma authdonate_purchase_fails:
  "\<not> success (fst (authdonate_purchase fp get gpRes dRes rRes pr buyerId gamepassId)) \<and>
   snd (authdonate_purchase fp get gpRes dRes rRes pr buyerId gamepassId) = []"
  by (auto simp: authdonate_purchase_def located_user_def reply_def purchase_error_def Let_def
      split: sum.splits option.splits)

lemma purchase_score_multiplier_fails:
  "\<not> success (fst (purchase_score_multiplier get pr userId)) \<and>
   snd (purchase_score_multiplier get pr userId) = []"
  by (auto simp: purchase_score_multiplier_def located_user_def reply_def internal_error_def Let_def
      split: sum.splits option.splits)

lemma purchase_gamepass_throws:
  assumes "userId \<noteq> 0" "gameId = ''dodge-the-blocks'' \<or> gameId = ''floor-is-lava''"
    "gamepassId \<noteq> []" "price \<noteq> 0"
    "fetchAllUserRecords get = Inr v" "gr = Response k (Json r)"
    "findUserAndBin v userId = Some b"
    "find (\<lambda>u. toLowerCase (username u) = ''madeonice'') (allUsers v) = Some m"
  shows "purchase_gamepass fp get gr pr userId gameId gamepassId price = (internal_error, [])"
  using assms by (auto simp: purchase_gamepass_def located_user_def Let_def)

lemma authdonate_purchase_throws:
  assumes "buyerId \<noteq> 0" "gamepassId \<noteq> 0" "fetchAllUserRecords get = Inr v"
    "record_list gpRes = Inr gps" "record_list dRes = Inr d" "record_list rRes = Inr rb"
    "find (\<lambda>gp. id_gamepass gp = gamepassId) gps = Some g"
    "findUserAndBin v buyerId = Some b" "findUserAndBin v (ownerId g) = Some ob"
  shows "authdonate_purchase fp get gpRes dRes rRes pr buyerId gamepassId = (purchase_error, [])"
proof -
  have "\<not> is_rejected gpRes" "\<not> is_rejected dRes" "\<not> is_rejected rRes"
    using assms(4,5,6) by (cases gpRes; cases dRes; cases rRes; simp)+
  then show ?thesis
    using assms by (simp add: authdonate_purchase_def located_user_def Let_def)
qed

lemma purchase_score_multiplier_throws:
  assumes "userId \<noteq> 0" "fetchAllUserRecords get = Inr v" "findUserAndBin v userId = Some b"
  shows "purchase_score_multiplier get pr userId = (internal_error, [])"
  using assms by (simp add: purchase_score_multiplier_def located_user_def Let_def)

lemma fetch_shop: "fetchAllUserRecords shop_get = Inr shop_view"
  by (simp add: shop_get_def shop_view_def shop_h_def fetch_two_bins)

lemma find_shop_buyer: "findUserAndBin shop_view 1 = Some shop_buyer"
  by (simp add: findUserAndBin_def shop_view_def shop_h_def shop_buyer_def mk_user_def)

lemma find_shop_owner: "findUserAndBin shop_view 2 = Some shop_owner"
  by (simp add: findUserAndBin_def shop_view_def shop_h_def shop_owner_def mk_user_def)

lemma find_shop_madeonice:
  "find (\<lambda>u. toLowerCase (username u) = ''madeonice'') (allUsers shop_view)
     = Some (mk_user 2 ''MadeOnIce'' 0)"
  by (simp add: shop_view_def mk_user_def lower_madeonice lower_ann)

text \<open>
  C9, as the code has it. The object that \<open>findUserAndBin\<close> returns has no \<open>user\<close>
  property, so no request to /api/games/purchase-gamepass, /api/authdonate/purchase or
  /api/floorislava/purchase-score-multiplier is answered with success, and none issues a
  PUT. A request that passes the guards before the dereference (the fields are present,
  the game is known or the gamepass and its owner are found, the reads succeed, the game
  owner \<open>madeonice\<close> exists) and whose buyer exists throws there and gets the handler's
  500 response.
\<close>

theorem purchases_throw_on_absent_user:
  "\<not> success (fst (purchase_gamepass fp get gr pr userId gameId gamepassId price)) \<and>
   snd (purchase_gamepass fp get gr pr userId gameId gamepassId price) = [] \<and>
   \<not> success (fst (authdonate_purchase fp get gpRes dRes rRes pr buyerId gpId)) \<and>
   snd (authdonate_purchase fp get gpRes dRes rRes pr buyerId gpId) = [] \<and>
   \<not> success (fst (purchase_score_multiplier get pr userId)) \<and>
   snd (purchase_score_multiplier get pr userId) = [] \<and>
   (userId \<noteq> 0 \<and> (gameId = ''dodge-the-blocks'' \<or> gameId = ''floor-is-lava'') \<and>
    gamepassId \<noteq> [] \<and> price \<noteq> 0 \<and> fetchAllUserRecords get = Inr v \<and>
    gr = Response k (Json r) \<and> findUserAndBin v userId = Some b \<and>
    find (\<lambda>u. toLowerCase (username u) = ''madeonice'') (allUsers v) = Some m
    \<longrightarrow> purchase_gamepass fp get gr pr userId gameId gamepassId price = (internal_error, [])) \<and>
   (buyerId \<noteq> 0 \<and> gpId \<noteq> 0 \<and> fetchAllUserRecords get = Inr v \<and>
    record_list gpRes = Inr gps \<and> record_list dRes = Inr d \<and> record_list rRes = Inr rb \<and>
    find (\<lambda>gp. id_gamepass gp = gpId) gps = Some g \<and>
    findUserAndBin v buyerId = Some b' \<and> findUserAndBin v (ownerId g) = Some ob
    \<longrightarrow> authdonate_purchase fp get gpRes dRes rRes pr buyerId gpId = (purchase_error, [])) \<and>
   (userId \<noteq> 0 \<and> fetchAllUserRecords get = Inr v \<and> findUserAndBin v userId = Some b
    \<longrightarrow> purchase_score_multiplier get pr userId = (internal_error, []))"
  using purchase_gamepass_fails[of fp get gr pr userId gameId gamepassId price]
    authdonate_purchase_fails[of fp get gpRes dRes rRes pr buyerId gpId]
    purchase_score_multiplier_fails[of get pr userId]
    purchase_gamepass_throws[of userId gameId gamepassId price get v gr k r b m fp pr]
    authdonate_purchase_throws[of buyerId gpId get v gpRes gps dRes d rRes rb g b' ob fp pr]
    purchase_score_multiplier_throws[of userId get v b pr]
  by blast

theorem purchases_throw_on_absent_user_witness:
  "\<forall>floor_pct.
     purchase_gamepass floor_pct shop_get (Response True (Json None)) all_ok 1 ''dodge-the-blocks'' ''vip'' 100
       = (internal_error, []) \<and>
     authdonate_purchase floor_pct shop_get (Response True (Json (Some (Some [vip_pass]))))
         (Response True (Json (Some None))) (Response True (Json (Some None))) all_ok 1 5
       = (purchase_error, []) \<and>
     purchase_score_multiplier shop_get all_ok 1 = (internal_error, [])"
proof
  fix floor_pct :: "int \<Rightarrow> nat \<Rightarrow> int"
  have g: "find (\<lambda>gp. id_gamepass gp = 5) [vip_pass] = Some vip_pass" by (simp add: vip_pass_def)
  have o: "findUserAndBin shop_view (ownerId vip_pass) = Some shop_owner"
    using find_shop_owner by (simp add: vip_pass_def)
  note T = purchases_throw_on_absent_user[of floor_pct shop_get "Response True (Json None)" all_ok 1 "''dodge-the-blocks''" "''vip''" 100
      "Response True (Json (Some (Some [vip_pass])))" "Response True (Json (Some None))"
      "Response True (Json (Some None))" 1 5 shop_view True None shop_buyer "mk_user 2 ''MadeOnIce'' 0"
      "[vip_pass]" "[]" "[]" vip_pass shop_buyer shop_owner]
  from T fetch_shop find_shop_buyer find_shop_madeonice g o
  show "purchase_gamepass floor_pct shop_get (Response True (Json None)) all_ok 1 ''dodge-the-blocks'' ''vip'' 100
       = (internal_error, []) \<and>
     authdonate_purchase floor_pct shop_get (Response True (Json (Some (Some [vip_pass]))))
         (Response True (Json (Some None))) (Response True (Json (Some None))) all_ok 1 5
       = (purchase_error, []) \<and>
     purchase_score_multiplier shop_get all_ok 1 = (internal_error, [])" by simp
qed

text \<open>
  C9 as stated fails: the buyer exists, but the game of the request is not one of the
  two the handler knows, so the handler answers 404 before it looks the buyer up; the
  response is not the internal-server-error response.
\<close>

theorem purchase_gamepass_unknown_game_counterexample:
  "fetchAllUserRecords shop_get = Inr shop_view \<and> findUserAndBin shop_view 1 = Some shop_buyer \<and>
   (\<forall>floor_pct. purchase_gamepass floor_pct shop_get (Response True (Json None)) all_ok 1 ''chess'' ''vip'' 100
     = (reply 404 False ''Game not found for gamepass system.'', [])) \<and>
   status (reply 404 False ''Game not found for gamepass system.'') \<noteq> status internal_error"
  by (simp add: fetch_shop find_shop_buyer purchase_gamepass_def reply_def internal_error_def)

lemma fetch_poor: "fetchAllUserRecords poor_get = Inr poor_view"
  by (simp add: poor_get_def poor_view_def fetch_two_bins)

text \<open>
  C2 fails on the purchase handlers. The buyer of this request to
  /api/games/purchase-gamepass holds 50 tokens and the price is 100; the request passes
  every guard before the balance check, and the handler answers with the response of its
  \<open>catch\<close> block, not with its insufficient-balance rejection of line 963. No PUT is
  issued.
\<close>

theorem purchase_gamepass_insufficient_balance:
  "fetchAllUserRecords poor_get = Inr poor_view \<and>
   findUserAndBin poor_view 1 = Some poor_buyer \<and>
   authTokens (users poor_buyer ! userIndex poor_buyer) < 100 \<and>
   (\<forall>floor_pct. purchase_gamepass floor_pct poor_get (Response True (Json None)) all_ok 1
       ''dodge-the-blocks'' ''vip'' 100 = (internal_error, [])) \<and>
   internal_error \<noteq> reply 400 False ''Insufficient AuthTokens.''"
proof -
  have b: "findUserAndBin poor_view 1 = Some poor_buyer"
    by (simp add: findUserAndBin_def poor_view_def poor_buyer_def mk_user_def)
  have m: "find (\<lambda>u. toLowerCase (username u) = ''madeonice'') (allUsers poor_view)
      = Some (mk_user 2 ''MadeOnIce'' 0)"
    by (simp add: poor_view_def mk_user_def lower_madeonice lower_ann)
  have t: "authTokens (users poor_buyer ! userIndex poor_buyer) < 100"
    by (simp add: poor_buyer_def mk_user_def)
  have r: "purchase_gamepass floor_pct poor_get (Response True (Json None)) all_ok 1
       ''dodge-the-blocks'' ''vip'' 100 = (internal_error, [])" for floor_pct
    by (rule purchase_gamepass_throws[OF _ _ _ _ fetch_poor _ b m]) simp_all
  have d: "internal_error \<noteq> reply 400 False ''Insufficient AuthTokens.''"
    by (simp add: internal_error_def reply_def)
  from fetch_poor b t r d show ?thesis by simp
qed


section \<open>POST /api/friends/accept\<close>

lemma friends_list_simps:
  "friends_list (init_friends u) = friends_list u"
  "friends_list (remove_requests x u) = friends_list u"
  "friendRequests (init_friends u) = friendRequests u"
  "friendRequests (push_friend x u) = friendRequests u"
  by (auto simp: friends_list_def init_friends_def remove_requests_def push_friend_def
      split: option.splits)

lemma max_count_mem: "x \<in> set xs \<Longrightarrow> max 1 (count_list xs x) = count_list xs x"
  by (induction xs) auto

lemma count_push_same:
  "count_list (friends_list (push_friend x u)) x = max 1 (count_list (friends_list u) x)"
proof (cases "x \<in> set (friends_list u)")
  case True
  then show ?thesis using max_count_mem[of x "friends_list u"] by (simp add: push_friend_def)
next
  case False
  then have "count_list (friends_list u) x = 0" by (simp add: count_list_0_iff)
  moreover have "friends_list (push_friend x u) = friends_list u @ [x]"
    using False by (simp add: push_friend_def friends_list_def)
  ultimately show ?thesis by simp
qed

lemma push_friend_idem: "push_friend x (push_friend x u) = push_friend x u"
proof (cases "x \<in> set (friends_list u)")
  case True
  then show ?thesis by (simp add: push_friend_def)
next
  case False
  then have "friends_list (push_friend x u) = friends_list u @ [x]"
    by (simp add: push_friend_def friends_list_def)
  then have "x \<in> set (friends_list (push_friend x u))" by simp
  then show ?thesis by (simp add: push_friend_def[of x "push_friend x u"])
qed

lemma init_friends_idem: "init_friends (init_friends u) = init_friends u"
  by (cases "friends u") (simp_all add: init_friends_def)

lemma friends_accept_run:
  assumes "fetchAllUserRecords get = Inr v" and "findUserAndBin v aid = Some la"
      and "findUserAndBin v rid = Some lr" and "aid \<noteq> 0" and "rid \<noteq> 0"
  shows "\<exists>usA usR.
      snd (friends_accept get pr aid rid) =
        (binId la, UsersBody usA) # (if binId la \<noteq> binId lr then [(binId lr, UsersBody usR)] else []) \<and>
      (binId la = binId lr \<longrightarrow> usR = usA) \<and>
      fst (friends_accept get pr aid rid) =
        (if all_rejects pr (if binId la \<noteq> binId lr then 2 else 1) then internal_error
         else reply 200 True ''Friend request accepted.'') \<and>
      usA ! userIndex la =
        push_friend rid (init_friends (remove_requests rid (users la ! userIndex la))) \<and>
      usR ! userIndex lr =
        (if aid = rid
         then push_friend rid (init_friends (remove_requests rid (users la ! userIndex la)))
         else push_friend aid (init_friends (users lr ! userIndex lr)))"
proof -
  let ?h = "binRecords v"
  let ?ba = "binId la" and ?ia = "userIndex la" and ?br = "binId lr" and ?ir = "userIndex lr"
  let ?h1 = "modify ?h ?ba ?ia (remove_requests rid)"
  let ?h2 = "modify ?h1 ?ba ?ia init_friends"
  let ?h3 = "modify ?h2 ?br ?ir init_friends"
  let ?h4 = "modify ?h3 ?ba ?ia (push_friend rid)"
  let ?h5 = "modify ?h4 ?br ?ir (push_friend aid)"
  note fa = located_facts[OF assms(1,2)]
  note fr = located_facts[OF assms(1,3)]
  have la: "?ia < length (arr ?h ?ba)" using fa(1,2) by simp
  have lr: "?ir < length (arr ?h ?br)" using fr(1,2) by simp
  have same: "(?ba = ?br \<and> ?ia = ?ir) = (aid = rid)"
  proof
    assume "?ba = ?br \<and> ?ia = ?ir"
    then have "users la ! ?ia = users lr ! ?ir" using fa(1) fr(1) by simp
    then show "aid = rid" using fa(3) fr(3) by simp
  next
    assume "aid = rid"
    then show "?ba = ?br \<and> ?ia = ?ir" using assms(2,3) by simp
  qed
  have run: "friends_accept get pr aid rid =
      (if all_rejects pr (if ?ba \<noteq> ?br then 2 else 1) then internal_error
       else reply 200 True ''Friend request accepted.'',
       (?ba, UsersBody (arr ?h5 ?ba)) # (if ?ba \<noteq> ?br then [(?br, UsersBody (arr ?h5 ?br))] else []))"
    using assms by (simp add: friends_accept_def Let_def numeral_2_eq_2)
  have a': "arr ?h5 ?ba ! ?ia =
        push_friend rid (init_friends (remove_requests rid (users la ! ?ia)))"
  proof (cases "aid = rid")
    case True
    with same have s: "?br = ?ba" "?ir = ?ia" by simp_all
    show ?thesis
      using la fa(1) True
      by (simp add: s nth_arr_modify arr_modify_length push_friend_idem init_friends_idem)
  next
    case False
    with same have s: "?ba \<noteq> ?br \<or> ?ia \<noteq> ?ir" by blast
    show ?thesis
      using la lr fa(1) False s
      by (auto simp: nth_arr_modify arr_modify_length)
  qed
  have r': "arr ?h5 ?br ! ?ir =
        (if aid = rid
         then push_friend rid (init_friends (remove_requests rid (users la ! ?ia)))
         else push_friend aid (init_friends (users lr ! ?ir)))"
  proof (cases "aid = rid")
    case True
    with same have s: "?br = ?ba" "?ir = ?ia" by simp_all
    show ?thesis
      using la fa(1) True
      by (simp add: s nth_arr_modify arr_modify_length push_friend_idem init_friends_idem)
  next
    case False
    with same have s: "?ba \<noteq> ?br \<or> ?ia \<noteq> ?ir" by blast
    show ?thesis
      using la lr fr(1) False s
      by (auto simp: nth_arr_modify arr_modify_length)
  qed
  show ?thesis
    apply (rule exI[of _ "arr ?h5 ?ba"])
    apply (rule exI[of _ "arr ?h5 ?br"])
    apply (simp only: run fst_conv snd_conv a' r')
    apply simp
    done
qed

lemma friends_accept_success_inv:
  assumes "friends_accept get pr aid rid = (resp, puts)" and "success resp"
  shows "aid \<noteq> 0 \<and> rid \<noteq> 0 \<and>
     (\<exists>v la lr. fetchAllUserRecords get = Inr v \<and> findUserAndBin v aid = Some la \<and>
        findUserAndBin v rid = Some lr)"
proof -
  have valid: "aid \<noteq> 0 \<and> rid \<noteq> 0"
    using assms by (auto simp: friends_accept_def reply_def split: if_splits)
  show ?thesis
  proof (cases "fetchAllUserRecords get")
    case (Inl e)
    with assms valid show ?thesis by (auto simp: friends_accept_def internal_error_def reply_def)
  next
    case (Inr v)
    show ?thesis
    proof (cases "findUserAndBin v aid")
      case None
      with Inr assms valid show ?thesis by (auto simp: friends_accept_def reply_def)
    next
      case (Some la)
      note la = this
      show ?thesis
      proof (cases "findUserAndBin v rid")
        case None
        with la Inr assms valid show ?thesis by (auto simp: friends_accept_def reply_def)
      next
        case (Some lr)
        with la Inr valid show ?thesis by blast
      qed
    qed
  qed
qed

lemma fetch_store_ab:
  "fetchAllUserRecords (backend_get store_ab) =
     Inr \<lparr>allUsers = [mk_user 1 ''ann'' 0, mk_user 2 ''bob'' 0],
          binRecords = [(''68deea1543b1c97be95856b2'', [mk_user 1 ''ann'' 0]),
                        (''68e395a643b1c97be95c2bc3'', [mk_user 2 ''bob'' 0])]\<rparr>"
  by (simp add: fetch_backend bins_eq store_ab_def)

lemma accept_store_ab:
  "friends_accept (backend_get store_ab) pr 1 2 =
     (if all_rejects pr 2 then internal_error else reply 200 True ''Friend request accepted.'',
      [(''68deea1543b1c97be95856b2'',
          UsersBody [(mk_user 1 ''ann'' 0)\<lparr>friends := Some [2], friendRequests := Some []\<rparr>]),
       (''68e395a643b1c97be95c2bc3'',
          UsersBody [(mk_user 2 ''bob'' 0)\<lparr>friends := Some [1]\<rparr>])])"
  by (simp add: friends_accept_def fetch_store_ab findUserAndBin_def mk_user_def arr_def modify_def
      remove_requests_def init_friends_def push_friend_def friends_list_def Let_def numeral_2_eq_2)

text \<open>
  C10, as the code has it. After a successful /api/friends/accept the lists the handler
  writes back hold no friend request from the requester in the accepter's record; the
  requester's id occurs in the accepter's friends list as often as before when it was
  there, and once when it was not, and likewise the accepter's id in the requester's
  friends list: exactly once whenever it occurred at most once before.
\<close>

theorem friends_accept_friend_lists:
  assumes "friends_accept get pr aid rid = (resp, puts)" and "success resp"
  shows "\<exists>v la lr usA usR.
     fetchAllUserRecords get = Inr v \<and> findUserAndBin v aid = Some la \<and>
     findUserAndBin v rid = Some lr \<and>
     puts = (binId la, UsersBody usA) #
            (if binId la \<noteq> binId lr then [(binId lr, UsersBody usR)] else []) \<and>
     (binId la = binId lr \<longrightarrow> usR = usA) \<and>
     friendRequests (usA ! userIndex la) =
       Some (filter (\<lambda>q. req_from q \<noteq> rid)
               (case friendRequests (users la ! userIndex la) of Some rs \<Rightarrow> rs | None \<Rightarrow> [])) \<and>
     count_list (friends_list (usA ! userIndex la)) rid
       = max 1 (count_list (friends_list (users la ! userIndex la)) rid) \<and>
     count_list (friends_list (usR ! userIndex lr)) aid
       = max 1 (count_list (friends_list (users lr ! userIndex lr)) aid)"
proof -
  from friends_accept_success_inv[OF assms] obtain v la lr where
    nz: "aid \<noteq> 0" "rid \<noteq> 0" and
    vl: "fetchAllUserRecords get = Inr v" "findUserAndBin v aid = Some la"
        "findUserAndBin v rid = Some lr" by blast
  let ?a = "users la ! userIndex la" and ?r = "users lr ! userIndex lr"
  from friends_accept_run[OF vl nz, of pr] assms(1) obtain usA usR where
    p: "puts = (binId la, UsersBody usA) #
            (if binId la \<noteq> binId lr then [(binId lr, UsersBody usR)] else [])"
    and e: "binId la = binId lr \<longrightarrow> usR = usA"
    and a': "usA ! userIndex la = push_friend rid (init_friends (remove_requests rid ?a))"
    and r': "usR ! userIndex lr =
        (if aid = rid then push_friend rid (init_friends (remove_requests rid ?a))
         else push_friend aid (init_friends ?r))"
    by auto
  have q: "friendRequests (usA ! userIndex la) =
       Some (filter (\<lambda>q. req_from q \<noteq> rid)
               (case friendRequests ?a of Some rs \<Rightarrow> rs | None \<Rightarrow> []))"
    by (simp add: a' friends_list_simps) (simp add: remove_requests_def)
  have ca: "count_list (friends_list (usA ! userIndex la)) rid
       = max 1 (count_list (friends_list ?a) rid)"
    by (simp add: a' count_push_same friends_list_simps)
  have cr: "count_list (friends_list (usR ! userIndex lr)) aid
       = max 1 (count_list (friends_list ?r) aid)"
  proof (cases "aid = rid")
    case True
    then have same: "lr = la" using vl(2,3) by simp
    have "count_list (friends_list (usR ! userIndex lr)) aid
        = count_list (friends_list (push_friend rid (init_friends (remove_requests rid ?a)))) rid"
      using True r' by simp
    also have "\<dots> = max 1 (count_list (friends_list ?a) rid)"
      by (simp add: count_push_same friends_list_simps)
    finally show ?thesis using True by (simp add: same)
  next
    case False
    then show ?thesis by (simp add: r' count_push_same friends_list_simps)
  qed
  show ?thesis
    apply (rule exI[of _ v])
    apply (rule exI[of _ la])
    apply (rule exI[of _ lr])
    apply (rule exI[of _ usA])
    apply (rule exI[of _ usR])
    apply (intro conjI)
           apply (rule vl(1) vl(2) vl(3) p e q ca cr)+
    done
qed

theorem friends_accept_friend_lists_witness:
  "friends_accept (backend_get store_ab) all_ok 1 2 =
     (reply 200 True ''Friend request accepted.'',
      [(''68deea1543b1c97be95856b2'',
          UsersBody [(mk_user 1 ''ann'' 0)\<lparr>friends := Some [2], friendRequests := Some []\<rparr>]),
       (''68e395a643b1c97be95c2bc3'',
          UsersBody [(mk_user 2 ''bob'' 0)\<lparr>friends := Some [1]\<rparr>])]) \<and>
   success (reply 200 True ''Friend request accepted.'') \<and>
   (\<exists>(la::located) (lr::located) (usA::user list) (usR::user list). userIndex la = 0 \<and> userIndex lr = 0 \<and>
      count_list (friends_list (usA ! userIndex la)) 2 = 1 \<and>
      count_list (friends_list (usR ! userIndex lr)) 1 = 1)"
proof -
  let ?resp = "reply 200 True ''Friend request accepted.''"
  let ?puts = "[(''68deea1543b1c97be95856b2'',
          UsersBody [(mk_user 1 ''ann'' 0)\<lparr>friends := Some [2], friendRequests := Some []\<rparr>]),
       (''68e395a643b1c97be95c2bc3'',
          UsersBody [(mk_user 2 ''bob'' 0)\<lparr>friends := Some [1]\<rparr>])]"
  let ?v = "\<lparr>allUsers = [mk_user 1 ''ann'' 0, mk_user 2 ''bob'' 0],
          binRecords = [(''68deea1543b1c97be95856b2'', [mk_user 1 ''ann'' 0]),
                        (''68e395a643b1c97be95c2bc3'', [mk_user 2 ''bob'' 0])]\<rparr>"
  have nr: "\<not> all_rejects all_ok 2" by (simp add: all_rejects_def all_ok_def numeral_2_eq_2)
  have run: "friends_accept (backend_get store_ab) all_ok 1 2 = (?resp, ?puts)"
    using nr by (simp add: accept_store_ab)
  have s: "success ?resp" by (simp add: reply_def)
  from friends_accept_friend_lists[OF run s] obtain v la lr usA usR where
    f: "fetchAllUserRecords (backend_get store_ab) = Inr v"
       "findUserAndBin v 1 = Some la" "findUserAndBin v 2 = Some lr"
    and c: "count_list (friends_list (usA ! userIndex la)) 2
       = max 1 (count_list (friends_list (users la ! userIndex la)) 2)"
       "count_list (friends_list (usR ! userIndex lr)) 1
       = max 1 (count_list (friends_list (users lr ! userIndex lr)) 1)"
    by blast
  have v: "v = ?v" using f(1) by (simp add: fetch_store_ab)
  have la: "la = \<lparr>binId = ''68deea1543b1c97be95856b2'', users = [mk_user 1 ''ann'' 0], userIndex = 0\<rparr>"
    using f(2) by (simp add: v findUserAndBin_def mk_user_def)
  have lr: "lr = \<lparr>binId = ''68e395a643b1c97be95c2bc3'', users = [mk_user 2 ''bob'' 0], userIndex = 0\<rparr>"
    using f(3) by (simp add: v findUserAndBin_def mk_user_def)
  have k: "count_list (friends_list (usA ! userIndex la)) 2 = 1"
       "count_list (friends_list (usR ! userIndex lr)) 1 = 1"
    using c by (simp_all add: la lr friends_list_def mk_user_def)
  have i: "userIndex la = 0" "userIndex lr = 0" by (simp_all add: la lr)
  have "\<exists>(la::located) (lr::located) (usA::user list) (usR::user list). userIndex la = 0 \<and> userIndex lr = 0 \<and>
      count_list (friends_list (usA ! userIndex la)) 2 = 1 \<and>
      count_list (friends_list (usR ! userIndex lr)) 1 = 1"
    apply (rule exI[of _ la])
    apply (rule exI[of _ lr])
    apply (rule exI[of _ usA])
    apply (rule exI[of _ usR])
    apply (intro conjI)
       apply (rule i k)+
    done
  with run s show ?thesis by simp
qed

text \<open>
  C10 as stated fails: the accepter's friends list holds the requester's id twice before
  the call, the call succeeds, and the list written back still holds it twice.
\<close>

theorem friends_accept_duplicate_counterexample:
  "friends_accept (two_bins [ann22] [mk_user 2 ''bob'' 0]) all_ok 1 2 =
     (reply 200 True ''Friend request accepted.'',
      [(''68deea1543b1c97be95856b2'', UsersBody [ann22\<lparr>friendRequests := Some []\<rparr>]),
       (''68e395a643b1c97be95c2bc3'', UsersBody [(mk_user 2 ''bob'' 0)\<lparr>friends := Some [1]\<rparr>])]) \<and>
   count_list (friends_list (ann22\<lparr>friendRequests := Some []\<rparr>)) 2 = 2"
  by (simp add: friends_accept_def fetch_two_bins findUserAndBin_def mk_user_def ann22_def arr_def
      modify_def remove_requests_def init_friends_def push_friend_def friends_list_def Let_def
      all_rejects_def all_ok_def numeral_2_eq_2)

text \<open>
  C6, as the code has it. There is no PartialCommit result and no reconciliation log.
  /api/create-group writes the payer's partition and the groups document: when the
  first write is answered ok and the second is not (its fetch rejects or its response is
  not ok), the handler answers with the 500 response of its \<open>catch\<close> block, and the
  payer's partition holds the debited list. /api/friends/accept writes two partitions
  when the two accounts are in different ones: when the first write is answered ok and
  the fetch of the second rejects, the handler answers with the same 500 response, the
  first partition holds the written list and the second is unchanged.
\<close>

theorem partial_write_answered_with_error:
  "(userId \<noteq> 0 \<and> groupName \<noteq> [] \<and> groupDescription \<noteq> [] \<and>
    fetchAllUserRecords get = Inr v \<and> findUserAndBin v userId = Some l \<and>
    \<not> authTokens (users l ! userIndex l) < 5000 \<and> groupsRes = Response True (Json r) \<and>
    put_ok (pr 0) \<and> \<not> put_ok (pr 1) \<longrightarrow>
      (\<exists>g. create_group get groupsRes pr now userId groupName groupDescription groupIconUrl =
          (internal_error,
           [(binId l, UsersBody (debited 5000 l)),
            (''68e18ff743b1c97be95a7ce7'', GroupsBody (groups_of r @ [g]))]) \<and>
        (\<forall>s. content (commit s [(binId l, UsersBody (debited 5000 l)),
                  (''68e18ff743b1c97be95a7ce7'', GroupsBody (groups_of r @ [g]))] pr (binId l))
              = Some (Some (debited 5000 l))))) \<and>
   (aid \<noteq> 0 \<and> rid \<noteq> 0 \<and> fetchAllUserRecords get = Inr v \<and> findUserAndBin v aid = Some la \<and>
    findUserAndBin v rid = Some lr \<and> binId la \<noteq> binId lr \<and>
    put_ok (pr 0) \<and> put_rejected (pr 1) \<longrightarrow>
      (\<exists>usA usR. friends_accept get pr aid rid =
          (internal_error, [(binId la, UsersBody usA), (binId lr, UsersBody usR)]) \<and>
        (\<forall>s. content (commit s [(binId la, UsersBody usA), (binId lr, UsersBody usR)] pr (binId la))
                = Some (Some usA) \<and>
             commit s [(binId la, UsersBody usA), (binId lr, UsersBody usR)] pr (binId lr)
                = s (binId lr))))"
proof (intro conjI impI)
  assume a: "userId \<noteq> 0 \<and> groupName \<noteq> [] \<and> groupDescription \<noteq> [] \<and>
    fetchAllUserRecords get = Inr v \<and> findUserAndBin v userId = Some l \<and>
    \<not> authTokens (users l ! userIndex l) < 5000 \<and> groupsRes = Response True (Json r) \<and>
    put_ok (pr 0) \<and> \<not> put_ok (pr 1)"
  then have f: "fetchAllUserRecords get = Inr v" and u: "findUserAndBin v userId = Some l"
    and ok: "put_ok (pr 0)" by simp_all
  have run: "\<exists>g. create_group get groupsRes pr now userId groupName groupDescription groupIconUrl =
          (internal_error,
           [(binId l, UsersBody (debited 5000 l)),
            (''68e18ff743b1c97be95a7ce7'', GroupsBody (groups_of r @ [g]))])"
    using a located_facts(1,2)[OF f u]
    by (simp add: create_group_def arr_modify Let_def debited_def)
  then obtain g where g: "create_group get groupsRes pr now userId groupName groupDescription groupIconUrl =
          (internal_error,
           [(binId l, UsersBody (debited 5000 l)),
            (''68e18ff743b1c97be95a7ce7'', GroupsBody (groups_of r @ [g]))])" ..
  have c: "content (commit s [(binId l, UsersBody (debited 5000 l)),
                  (''68e18ff743b1c97be95a7ce7'', GroupsBody (groups_of r @ [g]))] pr (binId l))
              = Some (Some (debited 5000 l))" for s
    by (rule commit_pair_first[where pr=pr, OF ok]) simp
  from g c show "\<exists>g. create_group get groupsRes pr now userId groupName groupDescription groupIconUrl =
          (internal_error,
           [(binId l, UsersBody (debited 5000 l)),
            (''68e18ff743b1c97be95a7ce7'', GroupsBody (groups_of r @ [g]))]) \<and>
        (\<forall>s. content (commit s [(binId l, UsersBody (debited 5000 l)),
                  (''68e18ff743b1c97be95a7ce7'', GroupsBody (groups_of r @ [g]))] pr (binId l))
              = Some (Some (debited 5000 l)))"
    by (intro exI[of _ g] conjI allI)
next
  assume a: "aid \<noteq> 0 \<and> rid \<noteq> 0 \<and> fetchAllUserRecords get = Inr v \<and> findUserAndBin v aid = Some la \<and>
    findUserAndBin v rid = Some lr \<and> binId la \<noteq> binId lr \<and>
    put_ok (pr 0) \<and> put_rejected (pr 1)"
  then have a': "fetchAllUserRecords get = Inr v" "findUserAndBin v aid = Some la"
    "findUserAndBin v rid = Some lr" "aid \<noteq> 0" "rid \<noteq> 0" and ne: "binId la \<noteq> binId lr"
    and p0: "pr 0 = PutResponse True" and p1: "put_rejected (pr 1)"
    by (simp_all add: put_ok_iff)
  have p1': "pr (Suc 0) = PutRejected" using p1 by (cases "pr (Suc 0)") simp_all
  have rj: "all_rejects pr 2"
    using p1 by (simp add: all_rejects_def numeral_2_eq_2)
  from friends_accept_run[OF a', of pr] obtain usA usR where
    p: "snd (friends_accept get pr aid rid) = (binId la, UsersBody usA) #
            (if binId la \<noteq> binId lr then [(binId lr, UsersBody usR)] else [])"
    and f: "fst (friends_accept get pr aid rid) =
        (if all_rejects pr (if binId la \<noteq> binId lr then 2 else 1) then internal_error
         else reply 200 True ''Friend request accepted.'')" by blast
  have run: "friends_accept get pr aid rid =
      (internal_error, [(binId la, UsersBody usA), (binId lr, UsersBody usR)])"
    using p f ne rj by (simp add: prod_eq_iff)
  have c: "content (commit s [(binId la, UsersBody usA), (binId lr, UsersBody usR)] pr (binId la))
                = Some (Some usA) \<and>
             commit s [(binId la, UsersBody usA), (binId lr, UsersBody usR)] pr (binId lr)
                = s (binId lr)" for s
    using ne by (simp add: commit_def p0 p1')
  show "\<exists>usA usR. friends_accept get pr aid rid =
          (internal_error, [(binId la, UsersBody usA), (binId lr, UsersBody usR)]) \<and>
        (\<forall>s. content (commit s [(binId la, UsersBody usA), (binId lr, UsersBody usR)] pr (binId la))
                = Some (Some usA) \<and>
             commit s [(binId la, UsersBody usA), (binId lr, UsersBody usR)] pr (binId lr)
                = s (binId lr))"
    apply (rule exI[of _ usA])
    apply (rule exI[of _ usR])
    using run c by simp
qed

theorem partial_write_answered_with_error_witness:
  "fetchAllUserRecords (backend_get store0) =
     Inr \<lparr>allUsers = [mk_user 1 ''ann'' 5000],
          binRecords = [(''68deea1543b1c97be95856b2'', [mk_user 1 ''ann'' 5000]),
                        (''68e395a643b1c97be95c2bc3'', [])]\<rparr>
   \<and> findUserAndBin \<lparr>allUsers = [mk_user 1 ''ann'' 5000],
          binRecords = [(''68deea1543b1c97be95856b2'', [mk_user 1 ''ann'' 5000]),
                        (''68e395a643b1c97be95c2bc3'', [])]\<rparr> 1
       = Some \<lparr>binId = ''68deea1543b1c97be95856b2'', users = [mk_user 1 ''ann'' 5000], userIndex = 0\<rparr>
   \<and> put_ok (second_refused 0) \<and> \<not> put_ok (second_refused 1)
   \<and> fst (create_group (backend_get store0) (Response True (Json None)) second_refused
            ''2025-01-01'' 1 ''chess club'' ''we play chess'' []) = internal_error
   \<and> fetchAllUserRecords (backend_get store_ab) =
     Inr \<lparr>allUsers = [mk_user 1 ''ann'' 0, mk_user 2 ''bob'' 0],
          binRecords = [(''68deea1543b1c97be95856b2'', [mk_user 1 ''ann'' 0]),
                        (''68e395a643b1c97be95c2bc3'', [mk_user 2 ''bob'' 0])]\<rparr>
   \<and> put_ok (second_rejected 0) \<and> put_rejected (second_rejected 1)
   \<and> fst (friends_accept (backend_get store_ab) second_rejected 1 2) = internal_error
   \<and> length (snd (friends_accept (backend_get store_ab) second_rejected 1 2)) = 2"
proof -
  let ?v = "\<lparr>allUsers = [mk_user 1 ''ann'' 5000],
          binRecords = [(''68deea1543b1c97be95856b2'', [mk_user 1 ''ann'' 5000]),
                        (''68e395a643b1c97be95c2bc3'', [])]\<rparr>"
  let ?l = "\<lparr>binId = ''68deea1543b1c97be95856b2'', users = [mk_user 1 ''ann'' 5000], userIndex = 0\<rparr>"
  have fl: "findUserAndBin ?v 1 = Some ?l"
    by (simp add: findUserAndBin_def mk_user_def)
  have t: "\<not> authTokens (users ?l ! userIndex ?l) < 5000" by (simp add: mk_user_def)
  have o: "put_ok (second_refused 0)" "\<not> put_ok (second_refused 1)"
    by (simp_all add: second_refused_def)
  note T = conjunct1[OF partial_write_answered_with_error[where userId=1 and groupName="''chess club''"
        and groupDescription="''we play chess''" and get="backend_get store0" and v="?v" and l="?l"
        and groupsRes="Response True (Json None)" and r=None and pr=second_refused
        and now="''2025-01-01''" and groupIconUrl="[]"]]
  from T fetch_store0 fl t o
  have A: "fst (create_group (backend_get store0) (Response True (Json None)) second_refused
            ''2025-01-01'' 1 ''chess club'' ''we play chess'' []) = internal_error"
    by auto
  let ?w = "\<lparr>allUsers = [mk_user 1 ''ann'' 0, mk_user 2 ''bob'' 0],
          binRecords = [(''68deea1543b1c97be95856b2'', [mk_user 1 ''ann'' 0]),
                        (''68e395a643b1c97be95c2bc3'', [mk_user 2 ''bob'' 0])]\<rparr>"
  let ?la = "\<lparr>binId = ''68deea1543b1c97be95856b2'', users = [mk_user 1 ''ann'' 0], userIndex = 0\<rparr>"
  let ?lr = "\<lparr>binId = ''68e395a643b1c97be95c2bc3'', users = [mk_user 2 ''bob'' 0], userIndex = 0\<rparr>"
  have fa: "findUserAndBin ?w 1 = Some ?la" by (simp add: findUserAndBin_def mk_user_def)
  have fr: "findUserAndBin ?w 2 = Some ?lr" by (simp add: findUserAndBin_def mk_user_def)
  have q: "put_ok (second_rejected 0)" "put_rejected (second_rejected 1)"
    by (simp_all add: second_rejected_def)
  note U = conjunct2[OF partial_write_answered_with_error[where aid=1 and rid=2
        and get="backend_get store_ab" and v="?w" and la="?la" and lr="?lr" and pr=second_rejected]]
  from U fetch_store_ab fa fr q
  have B: "fst (friends_accept (backend_get store_ab) second_rejected 1 2) = internal_error \<and>
     length (snd (friends_accept (backend_get store_ab) second_rejected 1 2)) = 2"
    by auto
  from fetch_store0 fl o A fetch_store_ab q B show ?thesis by simp
qed

text \<open>
  C6 as stated fails: a transaction whose first write was applied and whose second
  write failed is answered with the response of the \<open>catch\<close> block, which names no
  account and no amount and is the very response given when no write was applied at
  all. In /api/create-group the payer's partition holds the balance 0 where it held
  5000, and no group was stored; in /api/friends/accept the accepter's partition holds
  the new friend and the requester's partition is as it was.
\<close>

theorem partial_write_counterexample:
  "create_group (backend_get store0) (Response True (Json None)) second_refused
       ''2025-01-01'' 1 ''chess club'' ''we play chess'' [] =
     (\<lparr>status = 500, success = False, message = ''An internal server error occurred.'',
       payload = NoPayload\<rparr>,
      [(''68deea1543b1c97be95856b2'', UsersBody [mk_user 1 ''ann'' 0]),
       (''68e18ff743b1c97be95a7ce7'',
          GroupsBody [\<lparr>id_group = 1, name_group = ''chess club'', description = ''we play chess'',
                       iconUrl = [], ownerId_group = 1, members = [1],
                       createdAt = ''2025-01-01''\<rparr>])]) \<and>
   put_ok (second_refused 0) \<and> \<not> put_ok (second_refused 1) \<and>
   content (store0 ''68deea1543b1c97be95856b2'') = Some (Some [mk_user 1 ''ann'' 5000]) \<and>
   content (commit store0
       (snd (create_group (backend_get store0) (Response True (Json None)) second_refused
               ''2025-01-01'' 1 ''chess club'' ''we play chess'' []))
       second_refused ''68deea1543b1c97be95856b2'') = Some (Some [mk_user 1 ''ann'' 0]) \<and>
   create_group (backend_get store0) (Response True (Json None)) all_rejected
       ''2025-01-01'' 1 ''chess club'' ''we play chess'' [] =
     create_group (backend_get store0) (Response True (Json None)) second_refused
       ''2025-01-01'' 1 ''chess club'' ''we play chess'' [] \<and>
   commit store0
       (snd (create_group (backend_get store0) (Response True (Json None)) all_rejected
               ''2025-01-01'' 1 ''chess club'' ''we play chess'' []))
       all_rejected = store0 \<and>
   friends_accept (backend_get store_ab) second_rejected 1 2 =
     (\<lparr>status = 500, success = False, message = ''An internal server error occurred.'',
       payload = NoPayload\<rparr>,
      [(''68deea1543b1c97be95856b2'',
          UsersBody [(mk_user 1 ''ann'' 0)\<lparr>friends := Some [2], friendRequests := Some []\<rparr>]),
       (''68e395a643b1c97be95c2bc3'',
          UsersBody [(mk_user 2 ''bob'' 0)\<lparr>friends := Some [1]\<rparr>])]) \<and>
   put_ok (second_rejected 0) \<and> put_rejected (second_rejected 1) \<and>
   content (commit store_ab (snd (friends_accept (backend_get store_ab) second_rejected 1 2))
              second_rejected ''68deea1543b1c97be95856b2'')
     = Some (Some [(mk_user 1 ''ann'' 0)\<lparr>friends := Some [2], friendRequests := Some []\<rparr>]) \<and>
   content (commit store_ab (snd (friends_accept (backend_get store_ab) second_rejected 1 2))
              second_rejected ''68e395a643b1c97be95c2bc3'')
     = Some (Some [mk_user 2 ''bob'' 0])"
proof -
  let ?cg = "\<lambda>pr. create_group (backend_get store0) (Response True (Json None)) pr
       ''2025-01-01'' 1 ''chess club'' ''we play chess'' []"
  let ?puts = "[(''68deea1543b1c97be95856b2'', UsersBody [mk_user 1 ''ann'' 0]),
       (''68e18ff743b1c97be95a7ce7'',
          GroupsBody [\<lparr>id_group = 1, name_group = ''chess club'', description = ''we play chess'',
                       iconUrl = [], ownerId_group = 1, members = [1],
                       createdAt = ''2025-01-01''\<rparr>])]"
  let ?err = "\<lparr>status = 500, success = False, message = ''An internal server error occurred.'',
       payload = NoPayload\<rparr>"
  have ie: "internal_error = ?err" by (simp add: internal_error_def reply_def)
  have cg: "?cg pr = (if all_rejects pr 2 \<or> \<not> put_ok (pr 0) \<or> \<not> put_ok (pr 1) then ?err
                      else \<lparr>status = 200, success = True, message = ''Group created successfully!'',
                             payload = NewGroup \<lparr>id_group = 1, name_group = ''chess club'',
                               description = ''we play chess'', iconUrl = [], ownerId_group = 1,
                               members = [1], createdAt = ''2025-01-01''\<rparr>\<rparr>, ?puts)" for pr
    by (simp add: create_group_def fetch_store0 findUserAndBin_def mk_user_def arr_def modify_def
        Let_def ie)
  have o: "put_ok (second_refused 0)" "\<not> put_ok (second_refused 1)"
    by (simp_all add: second_refused_def)
  have q: "put_ok (second_rejected 0)" "put_rejected (second_rejected 1)"
    by (simp_all add: second_rejected_def)
  have c1: "?cg second_refused = (?err, ?puts)" using o by (simp add: cg)
  have c2: "?cg all_rejected = (?err, ?puts)" by (simp add: cg all_rejected_def)
  have s0: "content (store0 ''68deea1543b1c97be95856b2'') = Some (Some [mk_user 1 ''ann'' 5000])"
    by (simp add: store0_def)
  have w1: "content (commit store0 (snd (?cg second_refused)) second_refused
      ''68deea1543b1c97be95856b2'') = Some (Some [mk_user 1 ''ann'' 0])"
    unfolding c1 snd_conv by (rule commit_pair_first[where pr=second_refused, OF o(1)]) simp
  have w2: "commit store0 (snd (?cg all_rejected)) all_rejected = store0"
    unfolding c2 snd_conv by (simp add: commit_def all_rejected_def)
  have rj: "all_rejects second_rejected 2"
    by (simp add: all_rejects_def second_rejected_def numeral_2_eq_2)
  have fa: "friends_accept (backend_get store_ab) second_rejected 1 2 =
     (?err,
      [(''68deea1543b1c97be95856b2'',
          UsersBody [(mk_user 1 ''ann'' 0)\<lparr>friends := Some [2], friendRequests := Some []\<rparr>]),
       (''68e395a643b1c97be95c2bc3'',
          UsersBody [(mk_user 2 ''bob'' 0)\<lparr>friends := Some [1]\<rparr>])])"
    using rj by (simp add: accept_store_ab ie)
  have w3: "content (commit store_ab (snd (friends_accept (backend_get store_ab) second_rejected 1 2))
              second_rejected ''68deea1543b1c97be95856b2'')
     = Some (Some [(mk_user 1 ''ann'' 0)\<lparr>friends := Some [2], friendRequests := Some []\<rparr>])"
    unfolding fa snd_conv by (simp add: commit_def second_rejected_def)
  have w4: "content (commit store_ab (snd (friends_accept (backend_get store_ab) second_rejected 1 2))
              second_rejected ''68e395a643b1c97be95c2bc3'')
     = Some (Some [mk_user 2 ''bob'' 0])"
    unfolding fa snd_conv by (simp add: commit_def second_rejected_def store_ab_def)
  have e: "?cg all_rejected = ?cg second_refused" unfolding c1 c2 ..
  from c1 o s0 w1 e w2 fa q w3 w4 show ?thesis by (intro conjI)
qed


end
